theory Spec2Isabelle
  imports Main
begin

section \<open>Byte strings of Python 2\<close>

text \<open>
  The module is Python 2 (\<^verbatim>\<open>unicode\<close>, \<^verbatim>\<open>str\<close> returned by \<^verbatim>\<open>subprocess\<close>): every string is a
  byte string, modelled as \<^typ>\<open>string\<close>. The library functions the module calls on them are
  modelled here, for the arguments the module passes.
\<close>

definition TAB :: char where "TAB = CHR 0x09"
definition LF :: char where "LF = CHR 0x0A"
definition CR :: char where "CR = CHR 0x0D"
definition DQUOTE :: char where "DQUOTE = CHR 0x22"

text \<open>C \<^verbatim>\<open>isspace\<close>, which \<^verbatim>\<open>str.strip()\<close>, \<^verbatim>\<open>int()\<close> and the regex class \<^verbatim>\<open>\s\<close> use on bytes.\<close>

definition isspace :: "char \<Rightarrow> bool" where
  "isspace c = (c \<in> set [CHR 0x20, CHR 0x09, CHR 0x0A, CHR 0x0B, CHR 0x0C, CHR 0x0D])"

definition isdigit :: "char \<Rightarrow> bool" where
  "isdigit c = (48 \<le> (of_char c :: nat) \<and> (of_char c :: nat) \<le> 57)"

definition digit_val :: "char \<Rightarrow> nat" where
  "digit_val c = (of_char c :: nat) - 48"

text \<open>\<^verbatim>\<open>s.strip()\<close>: whitespace removed at both ends.\<close>

definition strip :: "string \<Rightarrow> string" where
  "strip s = rev (dropWhile isspace (rev (dropWhile isspace s)))"

text \<open>\<^verbatim>\<open>s[n:]\<close> and \<^verbatim>\<open>s[:n]\<close>: a negative index counts from the end, and both clamp.\<close>

definition py_slice_from :: "'a list \<Rightarrow> int \<Rightarrow> 'a list" where
  "py_slice_from s n = (if n < 0 then drop (nat (int (length s) + n)) s else drop (nat n) s)"

definition py_slice_to :: "'a list \<Rightarrow> int \<Rightarrow> 'a list" where
  "py_slice_to s n = (if n < 0 then take (nat (int (length s) + n)) s else take (nat n) s)"

text \<open>
  \<^verbatim>\<open>s.rpartition(sep)\<close> for a separator of one character: the text before the last
  occurrence, the separator, the text after it; two empty strings and \<open>s\<close> when \<open>sep\<close> does
  not occur.
\<close>

definition rpartition :: "string \<Rightarrow> char \<Rightarrow> string \<times> string \<times> string" where
  "rpartition s sep =
     (if sep \<in> set s
      then (rev (tl (dropWhile (\<lambda>c. c \<noteq> sep) (rev s))), [sep],
            rev (takeWhile (\<lambda>c. c \<noteq> sep) (rev s)))
      else ([], [], s))"

text \<open>
  \<^verbatim>\<open>int(s)\<close> in base 10, as \<^verbatim>\<open>PyInt_FromString\<close> reads a byte string through \<^verbatim>\<open>PyOS_strtol\<close>:
  whitespace around the literal is ignored, then an optional sign, whitespace again after a
  sign, and at least one decimal digit; anything else raises \<^verbatim>\<open>ValueError\<close> (\<open>None\<close>).
\<close>

definition parse_digits :: "string \<Rightarrow> nat option" where
  "parse_digits s =
     (if s \<noteq> [] \<and> list_all isdigit s
      then Some (foldl (\<lambda>a c. 10 * a + digit_val c) 0 s) else None)"

definition py_int :: "string \<Rightarrow> int option" where
  "py_int s =
     (case strip s of
        [] \<Rightarrow> None
      | c # r \<Rightarrow>
          if c = CHR ''-'' then map_option (\<lambda>n. - int n) (parse_digits (dropWhile isspace r))
          else if c = CHR ''+'' then map_option int (parse_digits (dropWhile isspace r))
          else map_option int (parse_digits (c # r)))"

section \<open>Errors\<close>

text \<open>
  \<^verbatim>\<open>subprocess.CalledProcessError(returncode, cmd, output)\<close>; the output is \<open>None\<close> when
  it was not captured.
\<close>

datatype called_process_error = CalledProcessError int "string list" "string option"

datatype error =
    DeviceNotFoundError string
  | NoUniqueDeviceError
  | ShellError "string list" string string int
  | RuntimeError string
  | ValueError
  | SubprocessError called_process_error

section \<open>Recovering the exit code from legacy shell output\<close>

definition RETURN_CODE_DELIMITER :: char where
  "RETURN_CODE_DELIMITER = CHR ''x''"

definition RETURN_CODE_PROBE_STRING :: string where
  "RETURN_CODE_PROBE_STRING = ''echo '' @ [DQUOTE] @ [RETURN_CODE_DELIMITER] @ ''$?'' @ [DQUOTE]"

definition RETURN_CODE_SEARCH_LENGTH :: nat where
  "RETURN_CODE_SEARCH_LENGTH = length ([RETURN_CODE_DELIMITER] @ ''255'' @ [CR, LF])"

definition SHELL_PROTOCOL_FEATURE :: string where
  "SHELL_PROTOCOL_FEATURE = ''shell_v2''"

text \<open>
  \<^verbatim>\<open>AndroidDevice._parse_shell_output\<close>: the exit code and the output without the text that
  the probe appended; \<open>Inl\<close> is the exception raised.
\<close>

definition parse_shell_output :: "string \<Rightarrow> error + (int \<times> string)" where
  "parse_shell_output out =
     (let search_text =
            (if length out > RETURN_CODE_SEARCH_LENGTH
             then py_slice_from out (- int RETURN_CODE_SEARCH_LENGTH) else out)
      in case rpartition search_text RETURN_CODE_DELIMITER of
           (p0, p1, p2) \<Rightarrow>
             if p1 = [] then Inl (RuntimeError ''Could not find exit status in shell output.'')
             else (case py_int p2 of
                     None \<Rightarrow> Inl ValueError
                   | Some result \<Rightarrow>
                       Inr (result, py_slice_to out (- int (length p1) - int (length p2)))))"

text \<open>
  The bounded trailing scan window of an output: its last \<open>RETURN_CODE_SEARCH_LENGTH\<close>
  characters, or all of it when it is shorter.
\<close>

definition search_window :: "string \<Rightarrow> string" where
  "search_window out = drop (length out - RETURN_CODE_SEARCH_LENGTH) out"

text \<open>The text a shell prints for the exit status \<^verbatim>\<open>$?\<close>: the decimal digits of the number.\<close>

fun decimal_text :: "nat \<Rightarrow> string" where
  "decimal_text n =
     (if n < 10 then [char_of (48 + n)]
      else decimal_text (n div 10) @ [char_of (48 + n mod 10)])"

declare decimal_text.simps [simp del]

section \<open>More of the string library\<close>

text \<open>
  \<^verbatim>\<open>s.splitlines()\<close> on a byte string: lines end at \<^verbatim>\<open>\n\<close>, \<^verbatim>\<open>\r\<close> or \<^verbatim>\<open>\r\n\<close>; the terminators
  are dropped, and a terminator at the very end opens no further line.
\<close>

definition linebreak :: "char \<Rightarrow> bool" where
  "linebreak c = (c = LF \<or> c = CR)"

fun skip_linebreak :: "string \<Rightarrow> string" where
  "skip_linebreak [] = []"
| "skip_linebreak [c] = []"
| "skip_linebreak (c # d # cs) = (if c = CR \<and> d = LF then cs else d # cs)"

lemma length_skip_linebreak: "length (skip_linebreak s) \<le> length s - 1"
  by (induction s rule: skip_linebreak.induct) auto

function splitlines :: "string \<Rightarrow> string list" where
  "splitlines s =
     (if s = [] then []
      else takeWhile (\<lambda>c. \<not> linebreak c) s
             # splitlines (skip_linebreak (dropWhile (\<lambda>c. \<not> linebreak c) s)))"
  by pat_completeness auto
termination
proof (relation "measure length")
  fix s :: string
  assume "s \<noteq> []"
  have "length (skip_linebreak (dropWhile (\<lambda>c. \<not> linebreak c) s))
          \<le> length (dropWhile (\<lambda>c. \<not> linebreak c) s) - 1"
    by (rule length_skip_linebreak)
  moreover have "length (dropWhile (\<lambda>c. \<not> linebreak c) s) \<le> length s"
    by (rule length_dropWhile_le)
  moreover have "0 < length s" using \<open>s \<noteq> []\<close> by simp
  ultimately have "length (skip_linebreak (dropWhile (\<lambda>c. \<not> linebreak c) s)) < length s"
    by linarith
  then show "(skip_linebreak (dropWhile (\<lambda>c. \<not> linebreak c) s), s) \<in> measure length"
    by simp
qed simp

declare splitlines.simps [simp del]

text \<open>\<^verbatim>\<open>sep.join(xs)\<close>.\<close>

fun join :: "string \<Rightarrow> string list \<Rightarrow> string" where
  "join sep [] = []"
| "join sep [x] = x"
| "join sep (x # y # ys) = x @ sep @ join sep (y # ys)"

text \<open>\<^verbatim>\<open>sub in s\<close>: \<open>sub\<close> occurs in \<open>s\<close> as a contiguous substring.\<close>

fun str_contains :: "string \<Rightarrow> string \<Rightarrow> bool" where
  "str_contains sub [] = (sub = [])"
| "str_contains sub (c # cs) = (take (length sub) (c # cs) = sub \<or> str_contains sub cs)"

text \<open>
  \<^verbatim>\<open>re.split(r'\s+', s, maxsplit=1)\<close>: the text before the first run of whitespace and the
  text after that run; only \<open>s\<close> when it holds no whitespace.
\<close>

definition re_split_whitespace_once :: "string \<Rightarrow> string list" where
  "re_split_whitespace_once s =
     (let rest = dropWhile (\<lambda>c. \<not> isspace c) s
      in if rest = [] then [s]
         else [takeWhile (\<lambda>c. \<not> isspace c) s, dropWhile isspace rest])"

text \<open>
  \<^verbatim>\<open>re.compile(r'^\[([^]]+)\]: \[(.*)\]').match(line)\<close>, giving the two groups. The match is
  anchored at the start only. The first group is greedy over every character but \<^verbatim>\<open>]\<close>, so it
  ends at the first \<^verbatim>\<open>]\<close>; the second is greedy over every character but the newline and
  is followed by \<^verbatim>\<open>]\<close>, so it ends at the last \<^verbatim>\<open>]\<close> before the first newline: the text
  up to the first newline is split as \<^verbatim>\<open>rpartition\<close> splits it.
\<close>

definition getprop_match :: "string \<Rightarrow> (string \<times> string) option" where
  "getprop_match line =
     (case line of
        [] \<Rightarrow> None
      | c # r \<Rightarrow>
          if c \<noteq> CHR ''['' then None
          else let key = takeWhile (\<lambda>c. c \<noteq> CHR '']'') r;
                   rest = dropWhile (\<lambda>c. c \<noteq> CHR '']'') r
               in if key = [] then None
                  else if take 4 rest \<noteq> '']: ['' then None
                  else (case rpartition (takeWhile (\<lambda>c. c \<noteq> LF) (drop 4 rest)) CHR '']'' of
                          (val, sep, after) \<Rightarrow> if sep = [] then None else Some (key, val)))"

section \<open>The host: external processes and the environment\<close>

text \<open>
  Every external effect of the module is the start of a process or a read of the
  environment. The host answers a command line with a return code and the captured
  streams; the answer may depend on every command line run before (\<open>calls\<close>, oldest
  first), and running a command appends it there. \<open>respond_merged\<close> answers a run with
  \<^verbatim>\<open>stderr=subprocess.STDOUT\<close>, where both streams arrive as one. The command-file
  workaround for Unicode arguments on Windows leaves the command line as it is everywhere
  else, and is not modelled; nor are the calls of \<^verbatim>\<open>logging\<close>, nor a process that cannot be
  started at all.
\<close>

record host =
  respond :: "string list list \<Rightarrow> string list \<Rightarrow> int \<times> string \<times> string"
  respond_merged :: "string list list \<Rightarrow> string list \<Rightarrow> int \<times> string"
  environ :: "string \<Rightarrow> string option"
  calls :: "string list list"

text \<open>\<^verbatim>\<open>p = Popen(cmd, stdout=PIPE, stderr=PIPE); p.communicate(); p.returncode\<close>.\<close>

definition popen_communicate :: "string list \<Rightarrow> host \<Rightarrow> (int \<times> string \<times> string) \<times> host" where
  "popen_communicate cmd h = (respond h (calls h) cmd, h\<lparr>calls := calls h @ [cmd]\<rparr>)"

text \<open>\<^verbatim>\<open>subprocess.check_call(cmd, stdout=devnull, stderr=devnull)\<close>.\<close>

definition check_call :: "string list \<Rightarrow> host \<Rightarrow> (called_process_error + unit) \<times> host" where
  "check_call cmd h =
     (case popen_communicate cmd h of
        ((returncode, out, err), h') \<Rightarrow>
          (if returncode \<noteq> 0 then Inl (CalledProcessError returncode cmd None) else Inr (), h'))"

text \<open>\<^verbatim>\<open>subprocess.check_output(cmd)\<close>.\<close>

definition check_output :: "string list \<Rightarrow> host \<Rightarrow> (called_process_error + string) \<times> host" where
  "check_output cmd h =
     (case popen_communicate cmd h of
        ((returncode, out, err), h') \<Rightarrow>
          (if returncode \<noteq> 0 then Inl (CalledProcessError returncode cmd (Some out))
           else Inr out, h'))"

text \<open>\<^verbatim>\<open>_subprocess_check_output(cmd, stderr=subprocess.STDOUT)\<close>.\<close>

definition subprocess_check_output ::
  "string list \<Rightarrow> host \<Rightarrow> (called_process_error + string) \<times> host" where
  "subprocess_check_output cmd h =
     (case respond_merged h (calls h) cmd of
        (returncode, out) \<Rightarrow>
          (if returncode \<noteq> 0 then Inl (CalledProcessError returncode cmd (Some out))
           else Inr out, h\<lparr>calls := calls h @ [cmd]\<rparr>))"

section \<open>Device handles\<close>

text \<open>
  \<open>priv_linesep\<close> and \<open>priv_features\<close> are the attributes \<^verbatim>\<open>_linesep\<close> and \<^verbatim>\<open>_features\<close>:
  \<open>None\<close> until the property is first read.
\<close>

record AndroidDevice =
  serial :: "string option"
  product :: "string option"
  adb_cmd :: "string list"
  priv_linesep :: "string option"
  priv_features :: "string list option"

definition AndroidDevice_init :: "string option \<Rightarrow> string option \<Rightarrow> string \<Rightarrow> AndroidDevice" where
  "AndroidDevice_init serial_arg product_arg adb_path =
     \<lparr>serial = serial_arg, product = product_arg,
      adb_cmd = [adb_path]
        @ (case serial_arg of None \<Rightarrow> [] | Some s \<Rightarrow> [''-s'', s])
        @ (case product_arg of None \<Rightarrow> [] | Some p \<Rightarrow> [''-p'', p]),
      priv_linesep = None, priv_features = None\<rparr>"

text \<open>\<^verbatim>\<open>AndroidDevice._simple_call\<close>.\<close>

definition simple_call ::
  "AndroidDevice \<Rightarrow> string list \<Rightarrow> host \<Rightarrow> (called_process_error + string) \<times> host" where
  "simple_call d cmd h = subprocess_check_output (adb_cmd d @ cmd) h"

text \<open>The property \<^verbatim>\<open>features\<close>: the value, the handle with the value cached, the host.\<close>

definition features :: "AndroidDevice \<Rightarrow> host \<Rightarrow> string list \<times> AndroidDevice \<times> host" where
  "features d h =
     (case priv_features d of
        Some fs \<Rightarrow> (fs, d, h)
      | None \<Rightarrow>
          (case simple_call d [''features''] h of
             (r, h') \<Rightarrow>
               (let fs = (case r of Inl e \<Rightarrow> [] | Inr out \<Rightarrow> splitlines out)
                in (fs, d\<lparr>priv_features := Some fs\<rparr>, h'))))"

text \<open>
  \<^verbatim>\<open>AndroidDevice._make_shell_cmd\<close>: the command line, with the probe for the exit code
  appended when the device does not have the feature \<^verbatim>\<open>shell_v2\<close>.
\<close>

definition make_shell_cmd ::
  "AndroidDevice \<Rightarrow> string list \<Rightarrow> host \<Rightarrow> string list \<times> AndroidDevice \<times> host" where
  "make_shell_cmd d user_cmd h =
     (let command = adb_cmd d @ [''shell''] @ user_cmd
      in case features d h of
           (fs, d', h') \<Rightarrow>
             (if SHELL_PROTOCOL_FEATURE \<notin> set fs
              then command @ [''; '' @ RETURN_CODE_PROBE_STRING] else command,
              d', h'))"

text \<open>
  \<^verbatim>\<open>AndroidDevice.shell_nocheck\<close>: the exit code and the two streams, or the exception of the
  parser; the handle and the host as the call leaves them.
\<close>

definition shell_nocheck ::
  "AndroidDevice \<Rightarrow> string list \<Rightarrow> host
     \<Rightarrow> (error + (int \<times> string \<times> string)) \<times> AndroidDevice \<times> host" where
  "shell_nocheck d cmd h =
     (case make_shell_cmd d cmd h of
        (command, d1, h1) \<Rightarrow>
          (case popen_communicate command h1 of
             ((returncode, stdout, stderr), h2) \<Rightarrow>
               (case features d1 h2 of
                  (fs, d2, h3) \<Rightarrow>
                    if SHELL_PROTOCOL_FEATURE \<in> set fs
                    then (Inr (returncode, stdout, stderr), d2, h3)
                    else (case parse_shell_output stdout of
                            Inl e \<Rightarrow> (Inl e, d2, h3)
                          | Inr (exit_code, stdout') \<Rightarrow>
                              (Inr (exit_code, stdout', stderr), d2, h3)))))"

text \<open>\<^verbatim>\<open>AndroidDevice.shell\<close>; the command in \<^verbatim>\<open>ShellError\<close> is the caller's.\<close>

definition shell ::
  "AndroidDevice \<Rightarrow> string list \<Rightarrow> host
     \<Rightarrow> (error + (string \<times> string)) \<times> AndroidDevice \<times> host" where
  "shell d cmd h =
     (case shell_nocheck d cmd h of
        (Inl e, d', h') \<Rightarrow> (Inl e, d', h')
      | (Inr (exit_code, stdout, stderr), d', h') \<Rightarrow>
          (if exit_code \<noteq> 0 then Inl (ShellError cmd stdout stderr exit_code)
           else Inr (stdout, stderr), d', h'))"

section \<open>Properties\<close>

text \<open>
  \<^verbatim>\<open>AndroidDevice.get_props\<close>: the loop over the lines, with the dictionary built so far, and
  the method. \<^verbatim>\<open>AndroidDevice.get_prop\<close> returns \<open>None\<close> or the line.
\<close>

fun get_props_loop :: "string list \<Rightarrow> (string \<rightharpoonup> string) \<Rightarrow> error + (string \<rightharpoonup> string)" where
  "get_props_loop [] result = Inr result"
| "get_props_loop (line # rest) result =
     (case getprop_match line of
        None \<Rightarrow> Inl (RuntimeError (''invalid getprop line: '' @ [DQUOTE] @ line @ [DQUOTE]))
      | Some (key, val) \<Rightarrow>
          if result key \<noteq> None
          then Inl (RuntimeError (''duplicate getprop key: '' @ [DQUOTE] @ key @ [DQUOTE]))
          else get_props_loop rest (result(key \<mapsto> val)))"

definition get_props ::
  "AndroidDevice \<Rightarrow> host \<Rightarrow> (error + (string \<rightharpoonup> string)) \<times> AndroidDevice \<times> host" where
  "get_props d h =
     (case shell d [''getprop''] h of
        (Inl e, d', h') \<Rightarrow> (Inl e, d', h')
      | (Inr (output, err), d', h') \<Rightarrow> (get_props_loop (splitlines output) Map.empty, d', h'))"

definition get_prop ::
  "AndroidDevice \<Rightarrow> string \<Rightarrow> host \<Rightarrow> (error + string option) \<times> AndroidDevice \<times> host" where
  "get_prop d prop_name h =
     (case shell d [''getprop'', prop_name] h of
        (Inl e, d', h') \<Rightarrow> (Inl e, d', h')
      | (Inr (out, err), d', h') \<Rightarrow>
          (let output = splitlines out
           in if length output \<noteq> 1
              then Inl (RuntimeError (''Too many lines in getprop output:'' @ [LF] @ join [LF] output))
              else let val = output ! 0
                   in if strip val = [] then Inr None else Inr (Some val),
           d', h'))"

section \<open>The device directory\<close>

text \<open>
  \<^verbatim>\<open>get_devices\<close>: the loop over the lines after the first, with the serials found so far, and
  the function. Unpacking the result of \<^verbatim>\<open>re.split\<close> into two names raises \<^verbatim>\<open>ValueError\<close> when
  the line was not split.
\<close>

fun get_devices_loop :: "string list \<Rightarrow> string list \<Rightarrow> error + string list" where
  "get_devices_loop [] devices = Inr devices"
| "get_devices_loop (line # rest) devices =
     (if strip line = [] then get_devices_loop rest devices
      else if str_contains ''offline'' line then get_devices_loop rest devices
      else (case re_split_whitespace_once line of
              [serial_arg, u] \<Rightarrow> get_devices_loop rest (devices @ [serial_arg])
            | _ \<Rightarrow> Inl ValueError))"

definition get_devices :: "string \<Rightarrow> host \<Rightarrow> (error + string list) \<times> host" where
  "get_devices adb_path h =
     (case check_call [adb_path, ''start-server''] h of
        (Inl e, h1) \<Rightarrow> (Inl (SubprocessError e), h1)
      | (Inr u, h1) \<Rightarrow>
          (case check_output [adb_path, ''devices''] h1 of
             (Inl e, h2) \<Rightarrow> (Inl (SubprocessError e), h2)
           | (Inr out, h2) \<Rightarrow> (get_devices_loop (drop 1 (splitlines out)) [], h2)))"

text \<open>
  \<^verbatim>\<open>_get_unique_device\<close>, \<^verbatim>\<open>_get_device_by_serial\<close> (its loop over the devices first) and
  \<^verbatim>\<open>get_device\<close>.
\<close>

definition get_unique_device ::
  "string option \<Rightarrow> string \<Rightarrow> host \<Rightarrow> (error + AndroidDevice) \<times> host" where
  "get_unique_device product_arg adb_path h =
     (case get_devices adb_path h of
        (Inl e, h') \<Rightarrow> (Inl e, h')
      | (Inr devices, h') \<Rightarrow>
          (if length devices \<noteq> 1 then Inl NoUniqueDeviceError
           else Inr (AndroidDevice_init (Some (devices ! 0)) product_arg adb_path), h'))"

fun find_device_by_serial ::
  "string list \<Rightarrow> string \<Rightarrow> string option \<Rightarrow> string \<Rightarrow> error + AndroidDevice" where
  "find_device_by_serial [] serial_arg product_arg adb_path = Inl (DeviceNotFoundError serial_arg)"
| "find_device_by_serial (device # rest) serial_arg product_arg adb_path =
     (if device = serial_arg then Inr (AndroidDevice_init (Some serial_arg) product_arg adb_path)
      else find_device_by_serial rest serial_arg product_arg adb_path)"

definition get_device_by_serial ::
  "string \<Rightarrow> string option \<Rightarrow> string \<Rightarrow> host \<Rightarrow> (error + AndroidDevice) \<times> host" where
  "get_device_by_serial serial_arg product_arg adb_path h =
     (case get_devices adb_path h of
        (Inl e, h') \<Rightarrow> (Inl e, h')
      | (Inr devices, h') \<Rightarrow> (find_device_by_serial devices serial_arg product_arg adb_path, h'))"

definition get_device ::
  "string option \<Rightarrow> string option \<Rightarrow> string \<Rightarrow> host \<Rightarrow> (error + AndroidDevice) \<times> host" where
  "get_device serial_arg product_arg adb_path h =
     (case serial_arg of
        Some s \<Rightarrow> get_device_by_serial s product_arg adb_path h
      | None \<Rightarrow>
          (case environ h ''ANDROID_SERIAL'' of
             Some android_serial \<Rightarrow> get_device_by_serial android_serial product_arg adb_path h
           | None \<Rightarrow> get_unique_device product_arg adb_path h))"

section \<open>A sample host and device\<close>

text \<open>
  A host that answers every \<^verbatim>\<open>features\<close> query with \<open>features_reply\<close> and every other process
  with \<open>shell_reply\<close>, has no environment variable set and has run nothing yet; and the
  handle \<^verbatim>\<open>AndroidDevice('abc123')\<close>. The theorems below are instantiated on them.
\<close>

definition example_host :: "string \<Rightarrow> int \<times> string \<times> string \<Rightarrow> host" where
  "example_host features_reply shell_reply =
     \<lparr>respond = (\<lambda>log cmd. shell_reply), respond_merged = (\<lambda>log cmd. (0, features_reply)),
      environ = (\<lambda>name. None), calls = []\<rparr>"

definition example_device :: AndroidDevice where
  "example_device = AndroidDevice_init (Some ''abc123'') None ''adb''"

section \<open>Facts about the string library and the parser\<close>

lemma rpartition_found:
  assumes "sep \<notin> set t"
  shows "rpartition (a @ sep # t) sep = (a, [sep], t)"
proof -
  have all: "\<And>c. c \<in> set (rev t) \<Longrightarrow> c \<noteq> sep" using assms by auto
  have "dropWhile (\<lambda>c. c \<noteq> sep) (rev t @ sep # rev a) = dropWhile (\<lambda>c. c \<noteq> sep) (sep # rev a)"
    by (rule dropWhile_append2) (rule all)
  then have d: "dropWhile (\<lambda>c. c \<noteq> sep) (rev t @ sep # rev a) = sep # rev a"
    by simp
  have "takeWhile (\<lambda>c. c \<noteq> sep) (rev t @ sep # rev a) = rev t @ takeWhile (\<lambda>c. c \<noteq> sep) (sep # rev a)"
    by (rule takeWhile_append2) (rule all)
  then have k: "takeWhile (\<lambda>c. c \<noteq> sep) (rev t @ sep # rev a) = rev t"
    by simp
  show ?thesis by (simp add: rpartition_def d k)
qed

lemma rpartition_not_found:
  "sep \<notin> set s \<Longrightarrow> rpartition s sep = ([], [], s)"
  by (simp add: rpartition_def)

lemma search_length: "RETURN_CODE_SEARCH_LENGTH = 6"
  by (simp add: RETURN_CODE_SEARCH_LENGTH_def)

lemma slice_window:
  "(if length out > RETURN_CODE_SEARCH_LENGTH
    then py_slice_from out (- int RETURN_CODE_SEARCH_LENGTH) else out) = search_window out"
  by (simp add: search_window_def py_slice_from_def nat_diff_distrib' search_length)

lemma slice_cut:
  assumes "0 < m"
  shows "py_slice_to out (- int m - int n) = take (length out - (m + n)) out"
proof -
  have "nat (int (length out) + (- int m - int n)) = length out - (m + n)" by linarith
  moreover have "- int m - int n < 0" using assms by linarith
  ultimately show ?thesis by (simp only: py_slice_to_def if_True)
qed

lemma parse_shell_output_window:
  "parse_shell_output out =
     (case rpartition (search_window out) RETURN_CODE_DELIMITER of
           (p0, p1, p2) \<Rightarrow>
             if p1 = [] then Inl (RuntimeError ''Could not find exit status in shell output.'')
             else (case py_int p2 of
                     None \<Rightarrow> Inl ValueError
                   | Some result \<Rightarrow>
                       Inr (result, take (length out - (length p1 + length p2)) out)))"
proof -
  obtain p0 p1 p2 where p: "rpartition (search_window out) RETURN_CODE_DELIMITER = (p0, p1, p2)"
    by (cases "rpartition (search_window out) RETURN_CODE_DELIMITER") auto
  show ?thesis
  proof (cases "p1 = []")
    case True
    then show ?thesis by (simp add: parse_shell_output_def Let_def slice_window p)
  next
    case False
    then have "0 < length p1" by simp
    then have "py_slice_to out (- int (length p1) - int (length p2)) =
        take (length out - (length p1 + length p2)) out"
      by (rule slice_cut)
    then show ?thesis using False
      by (cases "py_int p2") (simp_all add: parse_shell_output_def Let_def slice_window p)
  qed
qed

lemma window_split:
  assumes "sep \<notin> set t" "length t < RETURN_CODE_SEARCH_LENGTH"
  shows "search_window (a @ sep # t) = drop (length a - (RETURN_CODE_SEARCH_LENGTH - Suc (length t))) a @ sep # t"
  using assms by (simp add: search_window_def)

lemma parse_found:
  assumes "RETURN_CODE_DELIMITER \<notin> set t" "length t < RETURN_CODE_SEARCH_LENGTH"
  shows "parse_shell_output (a @ RETURN_CODE_DELIMITER # t) =
     (case py_int t of None \<Rightarrow> Inl ValueError | Some r \<Rightarrow> Inr (r, a))"
  using assms
  by (simp add: parse_shell_output_window window_split rpartition_found split: option.splits)

lemma parse_missing:
  assumes "RETURN_CODE_DELIMITER \<notin> set (search_window out)"
  shows "parse_shell_output out = Inl (RuntimeError ''Could not find exit status in shell output.'')"
  using assms
  by (simp add: parse_shell_output_window rpartition_not_found)

lemma window_decompose:
  assumes "sep \<in> set (search_window out)"
  shows "\<exists>a t. out = a @ sep # t \<and> sep \<notin> set t \<and> length t < RETURN_CODE_SEARCH_LENGTH"
proof -
  from assms obtain b t where w: "search_window out = b @ sep # t" and t: "sep \<notin> set t"
    using split_list_last by fastforce 
  have "out = take (length out - RETURN_CODE_SEARCH_LENGTH) out @ search_window out"
    by (simp add: search_window_def)
  then have "out = (take (length out - RETURN_CODE_SEARCH_LENGTH) out @ b) @ sep # t"
    using w by simp
  moreover have "length (search_window out) \<le> RETURN_CODE_SEARCH_LENGTH"
    by (simp add: search_window_def)
  then have "length t < RETURN_CODE_SEARCH_LENGTH" using w by simp
  ultimately show ?thesis using t by blast
qed

lemma isdigit_not_space: "isdigit c \<Longrightarrow> \<not> isspace c"
  by (auto simp add: isdigit_def isspace_def)

lemma strip_id:
  assumes "\<forall>c\<in>set s. \<not> isspace c"
  shows "strip s = s"
proof -
  have a: "dropWhile isspace s = s" using assms by (cases s) auto
  have "dropWhile isspace (rev s) = rev s" using assms by (cases "rev s") (auto dest: arg_cong[where f=set])
  then show ?thesis by (simp add: strip_def a)
qed

lemma digit_char: "d < 10 \<Longrightarrow> isdigit (char_of (48 + d)) \<and> digit_val (char_of (48 + d)) = d"
  by (simp add: isdigit_def digit_val_def)

lemma decimal_text_digits: "list_all isdigit (decimal_text n) \<and> decimal_text n \<noteq> []"
proof (induction n rule: decimal_text.induct)
  case (1 n)
  show ?case
  proof (cases "n < 10")
    case True
    then show ?thesis using digit_char[of n] by (simp add: decimal_text.simps[of n])
  next
    case False
    moreover have "n mod 10 < 10" by simp
    ultimately show ?thesis using 1 digit_char[of "n mod 10"]
      by (simp add: decimal_text.simps[of n])
  qed
qed

lemma decimal_text_value: "foldl (\<lambda>a c. 10 * a + digit_val c) 0 (decimal_text n) = n"
proof (induction n rule: decimal_text.induct)
  case (1 n)
  show ?case
  proof (cases "n < 10")
    case True
    then show ?thesis using digit_char[of n] by (simp add: decimal_text.simps[of n])
  next
    case False
    moreover have "n mod 10 < 10" by simp
    ultimately show ?thesis using 1 digit_char[of "n mod 10"]
      by (simp add: decimal_text.simps[of n])
  qed
qed

lemma parse_digits_decimal_text: "parse_digits (decimal_text n) = Some n"
  by (simp add: parse_digits_def decimal_text_digits decimal_text_value)

lemma py_int_decimal_text: "py_int (decimal_text n) = Some (int n)"
proof -
  have d: "\<forall>c\<in>set (decimal_text n). isdigit c"
    using decimal_text_digits[of n] by (simp add: list_all_iff)
  then have s: "strip (decimal_text n) = decimal_text n"
    by (intro strip_id) (auto dest: isdigit_not_space)
  obtain c r where cr: "decimal_text n = c # r"
    using decimal_text_digits[of n] by (cases "decimal_text n") auto
  then have "isdigit c" using d by simp
  then have "c \<noteq> CHR ''-''" "c \<noteq> CHR ''+''" by (auto simp add: isdigit_def)
  moreover have "strip (c # r) = c # r" using s cr by simp
  moreover have "parse_digits (c # r) = Some n" using parse_digits_decimal_text[of n] cr by simp
  ultimately show ?thesis by (simp add: py_int_def cr)
qed

lemma decimal_text_length: "n < 1000 \<Longrightarrow> length (decimal_text n) \<le> 3"
proof -
  assume n: "n < 1000"
  have "n div 10 div 10 < 10" using n by simp
  then show ?thesis
    by (simp add: decimal_text.simps[of n] decimal_text.simps[of "n div 10"]
        decimal_text.simps[of "n div 10 div 10"])
qed

lemma decimal_text_no_delimiter: "RETURN_CODE_DELIMITER \<notin> set (decimal_text n)"
proof
  assume "RETURN_CODE_DELIMITER \<in> set (decimal_text n)"
  then have "isdigit RETURN_CODE_DELIMITER"
    using decimal_text_digits[of n] by (simp add: list_all_iff)
  then show False by (simp add: isdigit_def RETURN_CODE_DELIMITER_def)
qed

lemma last_occurrence_unique:
  fixes a t a' t' :: string
  assumes "a @ sep # t = a' @ sep # t'" "sep \<notin> set t" "sep \<notin> set t'"
  shows "t = t' \<and> a = a'"
proof -
  have l: "rpartition (a @ sep # t) sep = (a, [sep], t)" using assms(2) by (rule rpartition_found)
  have r: "rpartition (a' @ sep # t') sep = (a', [sep], t')" using assms(3) by (rule rpartition_found)
  have "rpartition (a @ sep # t) sep = rpartition (a' @ sep # t') sep"
    by (simp only: assms(1))
  then have "(a, [sep], t) = (a', [sep], t')" by (simp only: l r)
  then show ?thesis by simp
qed

lemma text_after_delimiter_in_window:
  assumes "sep \<in> set (search_window out)" "out = a @ sep # t" "sep \<notin> set t"
  shows "length t < RETURN_CODE_SEARCH_LENGTH"
proof -
  obtain a' t' where "out = a' @ sep # t'" "sep \<notin> set t'" "length t' < RETURN_CODE_SEARCH_LENGTH"
    using window_decompose[OF assms(1)] by blast
  moreover then have "t = t'" using assms(2,3) last_occurrence_unique[of a sep t a' t'] by simp
  ultimately show ?thesis by simp
qed

lemma delimiter_in_window:
  assumes "length t < RETURN_CODE_SEARCH_LENGTH"
  shows "sep \<in> set (search_window (a @ sep # t))"
proof -
  have "search_window (a @ sep # t) = drop (length a - (RETURN_CODE_SEARCH_LENGTH - Suc (length t))) a @ sep # t"
    using assms by (simp add: search_window_def)
  then show ?thesis by simp
qed

section \<open>The legacy exit-code parser\<close>

text \<open>
  C1. A legacy output that is a payload without the delimiter character, then the delimiter,
  then the decimal digits of an exit code from 0 to 255, parses to that exit code and to
  exactly the payload, however long the payload is: shorter or longer than the scan window.
\<close>

theorem parse_shell_output_recovers_payload_and_code:
  assumes "n \<le> 255" and "RETURN_CODE_DELIMITER \<notin> set payload"
  shows "parse_shell_output (payload @ [RETURN_CODE_DELIMITER] @ decimal_text n) = Inr (int n, payload)"
proof -
  have "length (decimal_text n) \<le> 3" using assms(1) by (intro decimal_text_length) simp
  then have "length (decimal_text n) < RETURN_CODE_SEARCH_LENGTH" by (simp add: search_length)
  then have "parse_shell_output (payload @ RETURN_CODE_DELIMITER # decimal_text n) =
      (case py_int (decimal_text n) of None \<Rightarrow> Inl ValueError | Some r \<Rightarrow> Inr (r, payload))"
    using decimal_text_no_delimiter by (rule parse_found[rotated])
  then show ?thesis by (simp add: py_int_decimal_text)
qed

theorem parse_shell_output_recovers_payload_and_code_witness:
  "(0::nat) \<le> 255 \<and> RETURN_CODE_DELIMITER \<notin> set ''ok''
   \<and> parse_shell_output ''okx0'' = Inr (0, ''ok'')
   \<and> length ''okx0'' < RETURN_CODE_SEARCH_LENGTH
   \<and> (255::nat) \<le> 255 \<and> RETURN_CODE_DELIMITER \<notin> set ''total 12 files''
   \<and> parse_shell_output ''total 12 filesx255'' = Inr (255, ''total 12 files'')
   \<and> length ''total 12 filesx255'' > RETURN_CODE_SEARCH_LENGTH"
proof -
  have a: "RETURN_CODE_DELIMITER \<notin> set ''ok''" by (simp add: RETURN_CODE_DELIMITER_def)
  have b: "RETURN_CODE_DELIMITER \<notin> set ''total 12 files''" by (simp add: RETURN_CODE_DELIMITER_def)
  have d0: "decimal_text 0 = ''0''" by code_simp
  have d255: "decimal_text 255 = ''255''" by code_simp
  have "parse_shell_output (''ok'' @ [RETURN_CODE_DELIMITER] @ decimal_text 0) = Inr (int 0, ''ok'')"
    using a by (intro parse_shell_output_recovers_payload_and_code) simp
  moreover have "parse_shell_output (''total 12 files'' @ [RETURN_CODE_DELIMITER] @ decimal_text 255)
      = Inr (int 255, ''total 12 files'')"
    using b by (intro parse_shell_output_recovers_payload_and_code) simp
  ultimately show ?thesis using a b
    by (simp add: d0 d255 RETURN_CODE_DELIMITER_def search_length)
qed

text \<open>
  C9. There are outputs whose scan window holds the delimiter while the text after the last
  delimiter is no integer literal (the output ends in the delimiter, or other characters
  follow it), and on every such output the parser fails with the \<^verbatim>\<open>ValueError\<close> of \<^verbatim>\<open>int()\<close>,
  not with the \<^verbatim>\<open>RuntimeError\<close> it documents.
\<close>

theorem parse_shell_output_unguarded_int:
  "(\<exists>out a t. RETURN_CODE_DELIMITER \<in> set (search_window out) \<and> out = a @ [RETURN_CODE_DELIMITER] @ t
        \<and> RETURN_CODE_DELIMITER \<notin> set t \<and> py_int t = None)
   \<and> (RETURN_CODE_DELIMITER \<in> set (search_window out) \<and> out = a @ [RETURN_CODE_DELIMITER] @ t
        \<and> RETURN_CODE_DELIMITER \<notin> set t \<and> py_int t = None
       \<longrightarrow> parse_shell_output out = Inl ValueError)"
proof (intro conjI impI)
  have "RETURN_CODE_DELIMITER \<in> set (search_window (''abc'' @ RETURN_CODE_DELIMITER # []))"
    by (rule delimiter_in_window) (simp add: search_length)
  moreover have "py_int [] = None" by (simp add: py_int_def strip_def)
  ultimately show "\<exists>out a t. RETURN_CODE_DELIMITER \<in> set (search_window out)
      \<and> out = a @ [RETURN_CODE_DELIMITER] @ t \<and> RETURN_CODE_DELIMITER \<notin> set t \<and> py_int t = None"
    by (intro exI[of _ "''abc'' @ [RETURN_CODE_DELIMITER]"] exI[of _ "''abc''"] exI[of _ "[]"]) simp
next
  assume h: "RETURN_CODE_DELIMITER \<in> set (search_window out) \<and> out = a @ [RETURN_CODE_DELIMITER] @ t
        \<and> RETURN_CODE_DELIMITER \<notin> set t \<and> py_int t = None"
  then have w: "RETURN_CODE_DELIMITER \<in> set (search_window out)"
    and o': "out = a @ [RETURN_CODE_DELIMITER] @ t"
    and t: "RETURN_CODE_DELIMITER \<notin> set t" and i: "py_int t = None"
    by blast+
  from o' have o: "out = a @ RETURN_CODE_DELIMITER # t" by simp
  from w o t have "length t < RETURN_CODE_SEARCH_LENGTH"
    by (rule text_after_delimiter_in_window)
  with t have "parse_shell_output (a @ RETURN_CODE_DELIMITER # t) =
      (case py_int t of None \<Rightarrow> Inl ValueError | Some r \<Rightarrow> Inr (r, a))"
    by (rule parse_found)
  then show "parse_shell_output out = Inl ValueError"
    by (simp add: o i)
qed

theorem parse_shell_output_unguarded_int_witness:
  "((RETURN_CODE_DELIMITER \<in> set (search_window ''abcx'') \<and> ''abcx'' = ''abc'' @ [RETURN_CODE_DELIMITER] @ []
     \<and> RETURN_CODE_DELIMITER \<notin> set [] \<and> py_int [] = None)
     \<and> parse_shell_output ''abcx'' = Inl ValueError)
   \<and> ((RETURN_CODE_DELIMITER \<in> set (search_window ''lsx1a'') \<and> ''lsx1a'' = ''ls'' @ [RETURN_CODE_DELIMITER] @ ''1a''
     \<and> RETURN_CODE_DELIMITER \<notin> set ''1a'' \<and> py_int ''1a'' = None)
     \<and> parse_shell_output ''lsx1a'' = Inl ValueError)"
proof -
  have a: "RETURN_CODE_DELIMITER \<in> set (search_window ''abcx'') \<and> ''abcx'' = ''abc'' @ [RETURN_CODE_DELIMITER] @ []
     \<and> RETURN_CODE_DELIMITER \<notin> set [] \<and> py_int [] = None"
    by (simp add: search_window_def search_length RETURN_CODE_DELIMITER_def py_int_def strip_def)
  have b: "RETURN_CODE_DELIMITER \<in> set (search_window ''lsx1a'') \<and> ''lsx1a'' = ''ls'' @ [RETURN_CODE_DELIMITER] @ ''1a''
     \<and> RETURN_CODE_DELIMITER \<notin> set ''1a'' \<and> py_int ''1a'' = None"
    by (simp add: search_window_def search_length RETURN_CODE_DELIMITER_def py_int_def strip_def
        isspace_def parse_digits_def isdigit_def)
  have x: "parse_shell_output ''abcx'' = Inl ValueError"
    by (rule parse_shell_output_unguarded_int[THEN conjunct2, THEN mp, OF a])
  have y: "parse_shell_output ''lsx1a'' = Inl ValueError"
    by (rule parse_shell_output_unguarded_int[THEN conjunct2, THEN mp, OF b])
  show ?thesis by (rule conjI[OF conjI[OF a x] conjI[OF b y]])
qed

text \<open>
  C10. Whenever the parser returns, the cleaned output is a prefix of the output: the output
  is the cleaned output, then the delimiter, then the exit-code text (with whatever line
  terminator follows the digits), so exactly the length of the delimiter plus the length of
  that text is cut from the end and nothing before is changed.
\<close>

theorem parse_shell_output_cleaned_is_prefix:
  assumes "parse_shell_output out = Inr (code, cleaned)"
  shows "\<exists>t. out = cleaned @ [RETURN_CODE_DELIMITER] @ t
           \<and> cleaned = take (length out - (length [RETURN_CODE_DELIMITER] + length t)) out
           \<and> py_int t = Some code
           \<and> RETURN_CODE_DELIMITER \<notin> set t \<and> length t < RETURN_CODE_SEARCH_LENGTH"
proof -
  have "RETURN_CODE_DELIMITER \<in> set (search_window out)"
  proof (rule ccontr)
    assume "RETURN_CODE_DELIMITER \<notin> set (search_window out)"
    then have "parse_shell_output out = Inl (RuntimeError ''Could not find exit status in shell output.'')"
      by (rule parse_missing)
    then show False using assms by simp
  qed
  then obtain a t where o: "out = a @ RETURN_CODE_DELIMITER # t"
      and t: "RETURN_CODE_DELIMITER \<notin> set t" "length t < RETURN_CODE_SEARCH_LENGTH"
    using window_decompose by blast
  have "parse_shell_output out = (case py_int t of None \<Rightarrow> Inl ValueError | Some r \<Rightarrow> Inr (r, a))"
    unfolding o using t by (rule parse_found)
  then have "py_int t = Some code \<and> cleaned = a"
    using assms by (cases "py_int t") simp_all
  then show ?thesis using o t by (intro exI[of _ t]) simp
qed

theorem parse_shell_output_cleaned_is_prefix_witness:
  "parse_shell_output (''hello'' @ [LF] @ ''x17'' @ [CR, LF]) = Inr (17, ''hello'' @ [LF])
   \<and> (\<exists>t. ''hello'' @ [LF] @ ''x17'' @ [CR, LF] = (''hello'' @ [LF]) @ [RETURN_CODE_DELIMITER] @ t
           \<and> ''hello'' @ [LF] = take (length (''hello'' @ [LF] @ ''x17'' @ [CR, LF]) - (length [RETURN_CODE_DELIMITER] + length t))
                 (''hello'' @ [LF] @ ''x17'' @ [CR, LF])
           \<and> py_int t = Some 17
           \<and> RETURN_CODE_DELIMITER \<notin> set t \<and> length t < RETURN_CODE_SEARCH_LENGTH)"
proof -
  have h: "parse_shell_output (''hello'' @ [LF] @ ''x17'' @ [CR, LF]) = Inr (17, ''hello'' @ [LF])"
    by code_simp
  show ?thesis by (rule conjI[OF h parse_shell_output_cleaned_is_prefix[OF h]])
qed

section \<open>Running shell commands\<close>

lemma features_cached:
  assumes "features d h = (fs, d', h')"
  shows "priv_features d' = Some fs \<and> adb_cmd d' = adb_cmd d"
  using assms
  by (auto simp add: features_def Let_def split: option.splits prod.splits)

lemma features_again:
  assumes "priv_features d = Some fs"
  shows "features d h = (fs, d, h)"
  using assms by (simp add: features_def)

lemma shell_nocheck_structured:
  assumes f: "features d h = (fs, d', h')" and v2: "SHELL_PROTOCOL_FEATURE \<in> set fs"
  shows "shell_nocheck d cmd h =
           (Inr (respond h' (calls h') (adb_cmd d @ [''shell''] @ cmd)), d',
            h'\<lparr>calls := calls h' @ [adb_cmd d @ [''shell''] @ cmd]\<rparr>)"
proof -
  have m: "make_shell_cmd d cmd h = (adb_cmd d @ [''shell''] @ cmd, d', h')"
    using f v2 by (simp add: make_shell_cmd_def Let_def)
  have c: "priv_features d' = Some fs" using features_cached[OF f] by simp
  obtain rc out err where r: "respond h' (calls h') (adb_cmd d @ [''shell''] @ cmd) = (rc, out, err)"
    by (cases "respond h' (calls h') (adb_cmd d @ [''shell''] @ cmd)") auto
  have p: "popen_communicate (adb_cmd d @ [''shell''] @ cmd) h' =
      ((rc, out, err), h'\<lparr>calls := calls h' @ [adb_cmd d @ [''shell''] @ cmd]\<rparr>)"
    by (simp only: popen_communicate_def r)
  have a: "features d' (h'\<lparr>calls := calls h' @ [adb_cmd d @ [''shell''] @ cmd]\<rparr>) =
      (fs, d', h'\<lparr>calls := calls h' @ [adb_cmd d @ [''shell''] @ cmd]\<rparr>)"
    using c by (rule features_again)
  show ?thesis
    by (simp only: shell_nocheck_def m p a r prod.case v2 if_True)
qed

lemma shell_nocheck_legacy:
  assumes f: "features d h = (fs, d', h')" and v2: "SHELL_PROTOCOL_FEATURE \<notin> set fs"
    and r: "respond h' (calls h') (adb_cmd d @ [''shell''] @ cmd @ [''; '' @ RETURN_CODE_PROBE_STRING])
              = (rc, out, err)"
  shows "shell_nocheck d cmd h =
           (case parse_shell_output out of
              Inl e \<Rightarrow> Inl e
            | Inr (exit_code, cleaned) \<Rightarrow> Inr (exit_code, cleaned, err),
            d', h'\<lparr>calls := calls h' @ [adb_cmd d @ [''shell''] @ cmd @ [''; '' @ RETURN_CODE_PROBE_STRING]]\<rparr>)"
proof -
  let ?command = "adb_cmd d @ [''shell''] @ cmd @ [''; '' @ RETURN_CODE_PROBE_STRING]"
  have m: "make_shell_cmd d cmd h = (?command, d', h')"
    using f v2 by (simp add: make_shell_cmd_def Let_def)
  have c: "priv_features d' = Some fs" using features_cached[OF f] by simp
  have p: "popen_communicate ?command h' = ((rc, out, err), h'\<lparr>calls := calls h' @ [?command]\<rparr>)"
    by (simp only: popen_communicate_def r)
  have a: "features d' (h'\<lparr>calls := calls h' @ [?command]\<rparr>) =
      (fs, d', h'\<lparr>calls := calls h' @ [?command]\<rparr>)"
    using c by (rule features_again)
  have "shell_nocheck d cmd h =
      (case parse_shell_output out of
         Inl e \<Rightarrow> (Inl e, d', h'\<lparr>calls := calls h' @ [?command]\<rparr>)
       | Inr (exit_code, cleaned) \<Rightarrow>
           (Inr (exit_code, cleaned, err), d', h'\<lparr>calls := calls h' @ [?command]\<rparr>))"
    by (simp only: shell_nocheck_def m p a prod.case v2 if_False)
  then show ?thesis
    by (simp split: sum.splits prod.splits)
qed

lemma example_features:
  "features example_device (example_host reply shell_reply) =
     (splitlines reply, example_device\<lparr>priv_features := Some (splitlines reply)\<rparr>,
      (example_host reply shell_reply)\<lparr>calls := [[''adb'', ''-s'', ''abc123'', ''features'']]\<rparr>)"
  by (simp add: features_def simple_call_def subprocess_check_output_def example_host_def
      example_device_def AndroidDevice_init_def Let_def)

lemma example_adb_cmd: "adb_cmd example_device = [''adb'', ''-s'', ''abc123'']"
  by (simp add: example_device_def AndroidDevice_init_def)

lemma example_respond: "respond (example_host reply shell_reply) l cmd = shell_reply"
  by (simp add: example_host_def)

text \<open>
  C2. On a handle whose features hold \<^verbatim>\<open>shell_v2\<close>, \<^verbatim>\<open>shell_nocheck\<close> runs the device address,
  \<^verbatim>\<open>shell\<close> and the user's command with nothing appended, and returns the return code, the
  standard output and the standard error of that process as the host gave them.
\<close>

theorem shell_nocheck_structured_passthrough:
  assumes "features d h = (fs, d', h')" and "SHELL_PROTOCOL_FEATURE \<in> set fs"
  shows "fst (make_shell_cmd d cmd h) = adb_cmd d @ [''shell''] @ cmd
       \<and> shell_nocheck d cmd h =
           (Inr (respond h' (calls h') (adb_cmd d @ [''shell''] @ cmd)), d',
            h'\<lparr>calls := calls h' @ [adb_cmd d @ [''shell''] @ cmd]\<rparr>)"
proof
  show "fst (make_shell_cmd d cmd h) = adb_cmd d @ [''shell''] @ cmd"
    using assms by (simp add: make_shell_cmd_def Let_def)
  show "shell_nocheck d cmd h =
           (Inr (respond h' (calls h') (adb_cmd d @ [''shell''] @ cmd)), d',
            h'\<lparr>calls := calls h' @ [adb_cmd d @ [''shell''] @ cmd]\<rparr>)"
    using assms by (rule shell_nocheck_structured)
qed

theorem shell_nocheck_structured_passthrough_witness:
  "features example_device (example_host (''shell_v2'' @ [LF] @ ''cmd'' @ [LF]) (3, ''lost+found x0'', ''ls: denied''))
     = ([''shell_v2'', ''cmd''], example_device\<lparr>priv_features := Some [''shell_v2'', ''cmd'']\<rparr>,
        (example_host (''shell_v2'' @ [LF] @ ''cmd'' @ [LF]) (3, ''lost+found x0'', ''ls: denied''))
          \<lparr>calls := [[''adb'', ''-s'', ''abc123'', ''features'']]\<rparr>)
   \<and> SHELL_PROTOCOL_FEATURE \<in> set [''shell_v2'', ''cmd'']
   \<and> fst (make_shell_cmd example_device [''ls'', ''/data'']
        (example_host (''shell_v2'' @ [LF] @ ''cmd'' @ [LF]) (3, ''lost+found x0'', ''ls: denied'')))
       = [''adb'', ''-s'', ''abc123'', ''shell'', ''ls'', ''/data'']
   \<and> shell_nocheck example_device [''ls'', ''/data'']
        (example_host (''shell_v2'' @ [LF] @ ''cmd'' @ [LF]) (3, ''lost+found x0'', ''ls: denied''))
       = (Inr (3, ''lost+found x0'', ''ls: denied''),
          example_device\<lparr>priv_features := Some [''shell_v2'', ''cmd'']\<rparr>,
          (example_host (''shell_v2'' @ [LF] @ ''cmd'' @ [LF]) (3, ''lost+found x0'', ''ls: denied''))
            \<lparr>calls := [[''adb'', ''-s'', ''abc123'', ''features''],
                        [''adb'', ''-s'', ''abc123'', ''shell'', ''ls'', ''/data'']]\<rparr>)"
proof -
  let ?h = "example_host (''shell_v2'' @ [LF] @ ''cmd'' @ [LF]) (3, ''lost+found x0'', ''ls: denied'')"
  have s: "splitlines (''shell_v2'' @ [LF] @ ''cmd'' @ [LF]) = [''shell_v2'', ''cmd'']"
    by code_simp
  have f: "features example_device ?h
     = ([''shell_v2'', ''cmd''], example_device\<lparr>priv_features := Some [''shell_v2'', ''cmd'']\<rparr>,
        ?h\<lparr>calls := [[''adb'', ''-s'', ''abc123'', ''features'']]\<rparr>)"
    by (simp only: example_features s)
  have v: "SHELL_PROTOCOL_FEATURE \<in> set [''shell_v2'', ''cmd'']"
    by (simp add: SHELL_PROTOCOL_FEATURE_def)
  from shell_nocheck_structured_passthrough[OF f v, of "[''ls'', ''/data'']"] f v
  show ?thesis
    by (simp add: example_adb_cmd example_respond)
qed

text \<open>
  C3. In legacy mode, when the delimiter does not occur in the scan window of the output,
  the parser fails with its \<^verbatim>\<open>RuntimeError\<close>, and so do \<^verbatim>\<open>shell_nocheck\<close> and \<^verbatim>\<open>shell\<close>, after
  running the command once; a delimiter further to the front of the output changes nothing.
\<close>

theorem shell_nocheck_delimiter_missing:
  assumes "features d h = (fs, d', h')" and "SHELL_PROTOCOL_FEATURE \<notin> set fs"
    and "respond h' (calls h') (adb_cmd d @ [''shell''] @ cmd @ [''; '' @ RETURN_CODE_PROBE_STRING])
           = (rc, out, err)"
    and "RETURN_CODE_DELIMITER \<notin> set (search_window out)"
  shows "parse_shell_output out = Inl (RuntimeError ''Could not find exit status in shell output.'')
       \<and> shell_nocheck d cmd h =
           (Inl (RuntimeError ''Could not find exit status in shell output.''), d',
            h'\<lparr>calls := calls h' @ [adb_cmd d @ [''shell''] @ cmd @ [''; '' @ RETURN_CODE_PROBE_STRING]]\<rparr>)
       \<and> shell d cmd h =
           (Inl (RuntimeError ''Could not find exit status in shell output.''), d',
            h'\<lparr>calls := calls h' @ [adb_cmd d @ [''shell''] @ cmd @ [''; '' @ RETURN_CODE_PROBE_STRING]]\<rparr>)"
proof -
  have p: "parse_shell_output out = Inl (RuntimeError ''Could not find exit status in shell output.'')"
    using assms(4) by (rule parse_missing)
  have n: "shell_nocheck d cmd h =
           (Inl (RuntimeError ''Could not find exit status in shell output.''), d',
            h'\<lparr>calls := calls h' @ [adb_cmd d @ [''shell''] @ cmd @ [''; '' @ RETURN_CODE_PROBE_STRING]]\<rparr>)"
    by (simp only: shell_nocheck_legacy[OF assms(1-3)] p sum.case)
  have "shell d cmd h =
           (Inl (RuntimeError ''Could not find exit status in shell output.''), d',
            h'\<lparr>calls := calls h' @ [adb_cmd d @ [''shell''] @ cmd @ [''; '' @ RETURN_CODE_PROBE_STRING]]\<rparr>)"
    by (simp only: shell_def n prod.case sum.case)
  with p n show ?thesis by (intro conjI)
qed

theorem shell_nocheck_delimiter_missing_witness:
  "(features example_device (example_host (''cmd'' @ [LF]) (0, ''x0'' @ [LF] @ ''trailing data'', [])) = ([''cmd''], (example_device\<lparr>priv_features := Some [''cmd'']\<rparr>), ((example_host (''cmd'' @ [LF]) (0, ''x0'' @ [LF] @ ''trailing data'', []))\<lparr>calls := [[''adb'', ''-s'', ''abc123'', ''features'']]\<rparr>))
    \<and> SHELL_PROTOCOL_FEATURE \<notin> set [''cmd'']
    \<and> respond ((example_host (''cmd'' @ [LF]) (0, ''x0'' @ [LF] @ ''trailing data'', []))\<lparr>calls := [[''adb'', ''-s'', ''abc123'', ''features'']]\<rparr>) (calls ((example_host (''cmd'' @ [LF]) (0, ''x0'' @ [LF] @ ''trailing data'', []))\<lparr>calls := [[''adb'', ''-s'', ''abc123'', ''features'']]\<rparr>)) [''adb'', ''-s'', ''abc123'', ''shell'', ''cat'', ''f'', ''; echo '' @ [DQUOTE] @ ''x$?'' @ [DQUOTE]] = (0, (''x0'' @ [LF] @ ''trailing data''), [])
    \<and> RETURN_CODE_DELIMITER \<notin> set (search_window (''x0'' @ [LF] @ ''trailing data'')))
   \<and> RETURN_CODE_DELIMITER \<in> set (''x0'' @ [LF] @ ''trailing data'')
   \<and> parse_shell_output (''x0'' @ [LF] @ ''trailing data'') = Inl (RuntimeError ''Could not find exit status in shell output.'')
   \<and> shell_nocheck example_device [''cat'', ''f''] (example_host (''cmd'' @ [LF]) (0, ''x0'' @ [LF] @ ''trailing data'', [])) = (Inl (RuntimeError ''Could not find exit status in shell output.''), (example_device\<lparr>priv_features := Some [''cmd'']\<rparr>), ((example_host (''cmd'' @ [LF]) (0, ''x0'' @ [LF] @ ''trailing data'', []))\<lparr>calls := [[''adb'', ''-s'', ''abc123'', ''features''], [''adb'', ''-s'', ''abc123'', ''shell'', ''cat'', ''f'', ''; echo '' @ [DQUOTE] @ ''x$?'' @ [DQUOTE]]]\<rparr>))
   \<and> shell example_device [''cat'', ''f''] (example_host (''cmd'' @ [LF]) (0, ''x0'' @ [LF] @ ''trailing data'', [])) = (Inl (RuntimeError ''Could not find exit status in shell output.''), (example_device\<lparr>priv_features := Some [''cmd'']\<rparr>), ((example_host (''cmd'' @ [LF]) (0, ''x0'' @ [LF] @ ''trailing data'', []))\<lparr>calls := [[''adb'', ''-s'', ''abc123'', ''features''], [''adb'', ''-s'', ''abc123'', ''shell'', ''cat'', ''f'', ''; echo '' @ [DQUOTE] @ ''x$?'' @ [DQUOTE]]]\<rparr>))"
proof -
  have s: "splitlines (''cmd'' @ [LF]) = [''cmd'']"
    by code_simp
  have f: "features example_device (example_host (''cmd'' @ [LF]) (0, ''x0'' @ [LF] @ ''trailing data'', [])) = ([''cmd''], (example_device\<lparr>priv_features := Some [''cmd'']\<rparr>), ((example_host (''cmd'' @ [LF]) (0, ''x0'' @ [LF] @ ''trailing data'', []))\<lparr>calls := [[''adb'', ''-s'', ''abc123'', ''features'']]\<rparr>))"
    by (simp only: example_features s)
  have v: "SHELL_PROTOCOL_FEATURE \<notin> set [''cmd'']"
    by (simp add: SHELL_PROTOCOL_FEATURE_def)
  have r: "respond ((example_host (''cmd'' @ [LF]) (0, ''x0'' @ [LF] @ ''trailing data'', []))\<lparr>calls := [[''adb'', ''-s'', ''abc123'', ''features'']]\<rparr>) (calls ((example_host (''cmd'' @ [LF]) (0, ''x0'' @ [LF] @ ''trailing data'', []))\<lparr>calls := [[''adb'', ''-s'', ''abc123'', ''features'']]\<rparr>))
      (adb_cmd example_device @ [''shell''] @ [''cat'', ''f''] @ [''; '' @ RETURN_CODE_PROBE_STRING])
      = (0, (''x0'' @ [LF] @ ''trailing data''), [])"
    by (simp add: example_respond)
  have w: "RETURN_CODE_DELIMITER \<notin> set (search_window (''x0'' @ [LF] @ ''trailing data''))"
    by (simp add: search_window_def search_length RETURN_CODE_DELIMITER_def LF_def)
  have e: "RETURN_CODE_DELIMITER \<in> set (''x0'' @ [LF] @ ''trailing data'')"
    by (simp add: RETURN_CODE_DELIMITER_def)
  have c: "adb_cmd example_device @ [''shell''] @ [''cat'', ''f''] @ [''; '' @ RETURN_CODE_PROBE_STRING] = [''adb'', ''-s'', ''abc123'', ''shell'', ''cat'', ''f'', ''; echo '' @ [DQUOTE] @ ''x$?'' @ [DQUOTE]]"
    by (simp add: example_adb_cmd RETURN_CODE_PROBE_STRING_def RETURN_CODE_DELIMITER_def)
  have k: "calls ((example_host (''cmd'' @ [LF]) (0, ''x0'' @ [LF] @ ''trailing data'', []))\<lparr>calls := [[''adb'', ''-s'', ''abc123'', ''features'']]\<rparr>) @ [[''adb'', ''-s'', ''abc123'', ''shell'', ''cat'', ''f'', ''; echo '' @ [DQUOTE] @ ''x$?'' @ [DQUOTE]]] = [[''adb'', ''-s'', ''abc123'', ''features''], [''adb'', ''-s'', ''abc123'', ''shell'', ''cat'', ''f'', ''; echo '' @ [DQUOTE] @ ''x$?'' @ [DQUOTE]]]"
    by simp
  have u: "((example_host (''cmd'' @ [LF]) (0, ''x0'' @ [LF] @ ''trailing data'', []))\<lparr>calls := [[''adb'', ''-s'', ''abc123'', ''features'']]\<rparr>)\<lparr>calls := [[''adb'', ''-s'', ''abc123'', ''features''], [''adb'', ''-s'', ''abc123'', ''shell'', ''cat'', ''f'', ''; echo '' @ [DQUOTE] @ ''x$?'' @ [DQUOTE]]]\<rparr> = ((example_host (''cmd'' @ [LF]) (0, ''x0'' @ [LF] @ ''trailing data'', []))\<lparr>calls := [[''adb'', ''-s'', ''abc123'', ''features''], [''adb'', ''-s'', ''abc123'', ''shell'', ''cat'', ''f'', ''; echo '' @ [DQUOTE] @ ''x$?'' @ [DQUOTE]]]\<rparr>)"
    by simp
  note t = shell_nocheck_delimiter_missing[OF f v r w, unfolded c k u]
  have r': "respond ((example_host (''cmd'' @ [LF]) (0, ''x0'' @ [LF] @ ''trailing data'', []))\<lparr>calls := [[''adb'', ''-s'', ''abc123'', ''features'']]\<rparr>) (calls ((example_host (''cmd'' @ [LF]) (0, ''x0'' @ [LF] @ ''trailing data'', []))\<lparr>calls := [[''adb'', ''-s'', ''abc123'', ''features'']]\<rparr>)) [''adb'', ''-s'', ''abc123'', ''shell'', ''cat'', ''f'', ''; echo '' @ [DQUOTE] @ ''x$?'' @ [DQUOTE]] = (0, (''x0'' @ [LF] @ ''trailing data''), [])"
    using r by (simp only: c)
  show ?thesis
    by (rule conjI[OF conjI[OF f conjI[OF v conjI[OF r' w]]] conjI[OF e t]])
qed

text \<open>
  C4. When \<^verbatim>\<open>shell_nocheck\<close> returns an exit code and the two streams, \<^verbatim>\<open>shell\<close> raises
  \<^verbatim>\<open>ShellError\<close> with the user's command, the streams and the exit code if and only if the exit
  code is not zero, and returns the two streams otherwise.
\<close>

theorem shell_raises_iff_nonzero:
  assumes "shell_nocheck d cmd h = (Inr (exit_code, out, err), d', h')"
  shows "shell d cmd h =
           (if exit_code \<noteq> 0 then Inl (ShellError cmd out err exit_code) else Inr (out, err), d', h')
       \<and> (fst (shell d cmd h) = Inl (ShellError cmd out err exit_code)) = (exit_code \<noteq> 0)
       \<and> (fst (shell d cmd h) = Inr (out, err)) = (exit_code = 0)"
proof -
  have "shell d cmd h =
      (if exit_code \<noteq> 0 then Inl (ShellError cmd out err exit_code) else Inr (out, err), d', h')"
    by (simp only: shell_def assms prod.case sum.case)
  then show ?thesis by simp
qed

theorem shell_raises_iff_nonzero_witness:
  "(shell_nocheck example_device [''ls'', ''/data''] (example_host (''shell_v2'' @ [LF] @ ''cmd'' @ [LF]) (3, ''lost+found x0'', ''ls: denied''))
      = (Inr (3, ''lost+found x0'', ''ls: denied''), (example_device\<lparr>priv_features := Some [''shell_v2'', ''cmd'']\<rparr>), ((example_host (''shell_v2'' @ [LF] @ ''cmd'' @ [LF]) (3, ''lost+found x0'', ''ls: denied''))\<lparr>calls := [[''adb'', ''-s'', ''abc123'', ''features''], [''adb'', ''-s'', ''abc123'', ''shell'', ''ls'', ''/data'']]\<rparr>))
    \<and> shell example_device [''ls'', ''/data''] (example_host (''shell_v2'' @ [LF] @ ''cmd'' @ [LF]) (3, ''lost+found x0'', ''ls: denied''))
      = (Inl (ShellError [''ls'', ''/data''] ''lost+found x0'' ''ls: denied'' 3), (example_device\<lparr>priv_features := Some [''shell_v2'', ''cmd'']\<rparr>), ((example_host (''shell_v2'' @ [LF] @ ''cmd'' @ [LF]) (3, ''lost+found x0'', ''ls: denied''))\<lparr>calls := [[''adb'', ''-s'', ''abc123'', ''features''], [''adb'', ''-s'', ''abc123'', ''shell'', ''ls'', ''/data'']]\<rparr>)))
   \<and> (shell_nocheck example_device [''ls'', ''/data''] (example_host (''shell_v2'' @ [LF] @ ''cmd'' @ [LF]) (0, ''lost+found'', []))
      = (Inr (0, ''lost+found'', []), (example_device\<lparr>priv_features := Some [''shell_v2'', ''cmd'']\<rparr>), ((example_host (''shell_v2'' @ [LF] @ ''cmd'' @ [LF]) (0, ''lost+found'', []))\<lparr>calls := [[''adb'', ''-s'', ''abc123'', ''features''], [''adb'', ''-s'', ''abc123'', ''shell'', ''ls'', ''/data'']]\<rparr>))
    \<and> shell example_device [''ls'', ''/data''] (example_host (''shell_v2'' @ [LF] @ ''cmd'' @ [LF]) (0, ''lost+found'', []))
      = (Inr (''lost+found'', []), (example_device\<lparr>priv_features := Some [''shell_v2'', ''cmd'']\<rparr>), ((example_host (''shell_v2'' @ [LF] @ ''cmd'' @ [LF]) (0, ''lost+found'', []))\<lparr>calls := [[''adb'', ''-s'', ''abc123'', ''features''], [''adb'', ''-s'', ''abc123'', ''shell'', ''ls'', ''/data'']]\<rparr>)))"
proof -
  have s: "splitlines (''shell_v2'' @ [LF] @ ''cmd'' @ [LF]) = [''shell_v2'', ''cmd'']"
    by code_simp
  have v: "SHELL_PROTOCOL_FEATURE \<in> set [''shell_v2'', ''cmd'']"
    by (simp add: SHELL_PROTOCOL_FEATURE_def)
  have fa: "features example_device (example_host (''shell_v2'' @ [LF] @ ''cmd'' @ [LF]) (3, ''lost+found x0'', ''ls: denied'')) = ([''shell_v2'', ''cmd''], (example_device\<lparr>priv_features := Some [''shell_v2'', ''cmd'']\<rparr>), ((example_host (''shell_v2'' @ [LF] @ ''cmd'' @ [LF]) (3, ''lost+found x0'', ''ls: denied''))\<lparr>calls := [[''adb'', ''-s'', ''abc123'', ''features'']]\<rparr>))"
    by (simp only: example_features s)
  have fb: "features example_device (example_host (''shell_v2'' @ [LF] @ ''cmd'' @ [LF]) (0, ''lost+found'', [])) = ([''shell_v2'', ''cmd''], (example_device\<lparr>priv_features := Some [''shell_v2'', ''cmd'']\<rparr>), ((example_host (''shell_v2'' @ [LF] @ ''cmd'' @ [LF]) (0, ''lost+found'', []))\<lparr>calls := [[''adb'', ''-s'', ''abc123'', ''features'']]\<rparr>))"
    by (simp only: example_features s)
  have na: "shell_nocheck example_device [''ls'', ''/data''] (example_host (''shell_v2'' @ [LF] @ ''cmd'' @ [LF]) (3, ''lost+found x0'', ''ls: denied''))
      = (Inr (3, ''lost+found x0'', ''ls: denied''), (example_device\<lparr>priv_features := Some [''shell_v2'', ''cmd'']\<rparr>), ((example_host (''shell_v2'' @ [LF] @ ''cmd'' @ [LF]) (3, ''lost+found x0'', ''ls: denied''))\<lparr>calls := [[''adb'', ''-s'', ''abc123'', ''features''], [''adb'', ''-s'', ''abc123'', ''shell'', ''ls'', ''/data'']]\<rparr>))"
    using shell_nocheck_structured[OF fa v, of "[''ls'', ''/data'']"]
    by (simp add: example_adb_cmd example_respond)
  have nb: "shell_nocheck example_device [''ls'', ''/data''] (example_host (''shell_v2'' @ [LF] @ ''cmd'' @ [LF]) (0, ''lost+found'', []))
      = (Inr (0, ''lost+found'', []), (example_device\<lparr>priv_features := Some [''shell_v2'', ''cmd'']\<rparr>), ((example_host (''shell_v2'' @ [LF] @ ''cmd'' @ [LF]) (0, ''lost+found'', []))\<lparr>calls := [[''adb'', ''-s'', ''abc123'', ''features''], [''adb'', ''-s'', ''abc123'', ''shell'', ''ls'', ''/data'']]\<rparr>))"
    using shell_nocheck_structured[OF fb v, of "[''ls'', ''/data'']"]
    by (simp add: example_adb_cmd example_respond)
  have sa: "shell example_device [''ls'', ''/data''] (example_host (''shell_v2'' @ [LF] @ ''cmd'' @ [LF]) (3, ''lost+found x0'', ''ls: denied''))
      = (Inl (ShellError [''ls'', ''/data''] ''lost+found x0'' ''ls: denied'' 3), (example_device\<lparr>priv_features := Some [''shell_v2'', ''cmd'']\<rparr>), ((example_host (''shell_v2'' @ [LF] @ ''cmd'' @ [LF]) (3, ''lost+found x0'', ''ls: denied''))\<lparr>calls := [[''adb'', ''-s'', ''abc123'', ''features''], [''adb'', ''-s'', ''abc123'', ''shell'', ''ls'', ''/data'']]\<rparr>))"
    using shell_raises_iff_nonzero[OF na, THEN conjunct1] by simp
  have sb: "shell example_device [''ls'', ''/data''] (example_host (''shell_v2'' @ [LF] @ ''cmd'' @ [LF]) (0, ''lost+found'', []))
      = (Inr (''lost+found'', []), (example_device\<lparr>priv_features := Some [''shell_v2'', ''cmd'']\<rparr>), ((example_host (''shell_v2'' @ [LF] @ ''cmd'' @ [LF]) (0, ''lost+found'', []))\<lparr>calls := [[''adb'', ''-s'', ''abc123'', ''features''], [''adb'', ''-s'', ''abc123'', ''shell'', ''ls'', ''/data'']]\<rparr>))"
    using shell_raises_iff_nonzero[OF nb, THEN conjunct1] by simp
  show ?thesis
    by (rule conjI[OF conjI[OF na sa] conjI[OF nb sb]])
qed

section \<open>Listing and resolving devices\<close>

lemma re_split_whitespace_once_case:
  "(case re_split_whitespace_once line of
      [a, b] \<Rightarrow> f a
    | _ \<Rightarrow> g) =
   (if \<exists>c\<in>set line. isspace c then f (takeWhile (\<lambda>c. \<not> isspace c) line) else g)"
  by (auto simp add: re_split_whitespace_once_def Let_def dropWhile_eq_Nil_conv)

lemma get_devices_loop_eq:
  "get_devices_loop ls acc =
     (if \<forall>l\<in>set (filter (\<lambda>l. strip l \<noteq> [] \<and> \<not> str_contains ''offline'' l) ls). \<exists>c\<in>set l. isspace c
      then Inr (acc @ map (takeWhile (\<lambda>c. \<not> isspace c))
                        (filter (\<lambda>l. strip l \<noteq> [] \<and> \<not> str_contains ''offline'' l) ls))
      else Inl ValueError)"
proof (induction ls arbitrary: acc)
  case Nil
  show ?case by simp
next
  case (Cons line rest)
  show ?case
    by (auto simp add: re_split_whitespace_once_case Cons.IH)
qed

lemma get_devices_quiet_host:
  assumes "respond h = (\<lambda>log cmd. (0, out, err))"
  shows "check_call [adb_path, ''start-server''] h = (Inr (), h\<lparr>calls := calls h @ [[adb_path, ''start-server'']]\<rparr>)"
    and "check_output [adb_path, ''devices''] (h\<lparr>calls := calls h @ [[adb_path, ''start-server'']]\<rparr>) =
      (Inr out, h\<lparr>calls := calls h @ [[adb_path, ''start-server''], [adb_path, ''devices'']]\<rparr>)"
    and "get_devices adb_path h = (get_devices_loop (drop 1 (splitlines out)) [],
           h\<lparr>calls := calls h @ [[adb_path, ''start-server''], [adb_path, ''devices'']]\<rparr>)"
  using assms
  by (simp_all add: get_devices_def check_call_def check_output_def popen_communicate_def)

lemma example_host_quiet: "respond (example_host fr (0, out, err)) = (\<lambda>log cmd. (0, out, err))"
  by (simp add: example_host_def)

lemma example_host_calls: "calls (example_host fr reply) = []"
  by (simp add: example_host_def)

lemma find_device_by_serial_eq:
  "find_device_by_serial devices s p adb_path =
     (if s \<in> set devices then Inr (AndroidDevice_init (Some s) p adb_path)
      else Inl (DeviceNotFoundError s))"
  by (induction devices) auto

lemma get_device_by_serial_eq:
  assumes "get_devices adb_path h = (Inr devices, h')"
  shows "get_device_by_serial s p adb_path h =
     (if s \<in> set devices then Inr (AndroidDevice_init (Some s) p adb_path)
      else Inl (DeviceNotFoundError s), h')"
  by (simp only: get_device_by_serial_def assms prod.case sum.case find_device_by_serial_eq)

lemma get_unique_device_eq:
  assumes "get_devices adb_path h = (Inr devices, h')"
  shows "get_unique_device p adb_path h =
     (if length devices \<noteq> 1 then Inl NoUniqueDeviceError
      else Inr (AndroidDevice_init (Some (devices ! 0)) p adb_path), h')"
  by (simp only: get_unique_device_def assms prod.case sum.case)

text \<open>
  C5. \<^verbatim>\<open>get_device\<close> takes the explicit serial first, then \<^verbatim>\<open>$ANDROID_SERIAL\<close>, then the single
  connected device. With the device list that \<^verbatim>\<open>get_devices\<close> returns: a serial, explicit or from
  the environment, that is not in the list raises \<^verbatim>\<open>DeviceNotFoundError\<close> with that serial; no
  serial, no \<^verbatim>\<open>$ANDROID_SERIAL\<close> and a list whose length is not 1 raises \<^verbatim>\<open>NoUniqueDeviceError\<close>;
  no serial, no \<^verbatim>\<open>$ANDROID_SERIAL\<close> and the list of the one device \<open>only\<close> returns the handle
  for \<open>only\<close>.
\<close>

theorem get_device_resolution_order:
  assumes "get_devices adb_path h = (Inr devices, h')"
  shows "get_device (Some s) p adb_path h = get_device_by_serial s p adb_path h
       \<and> (environ h ''ANDROID_SERIAL'' = Some e \<longrightarrow>
            get_device None p adb_path h = get_device_by_serial e p adb_path h)
       \<and> (environ h ''ANDROID_SERIAL'' = None \<longrightarrow>
            get_device None p adb_path h = get_unique_device p adb_path h)
       \<and> (s \<notin> set devices \<longrightarrow>
            get_device (Some s) p adb_path h = (Inl (DeviceNotFoundError s), h'))
       \<and> (s \<in> set devices \<longrightarrow>
            get_device (Some s) p adb_path h = (Inr (AndroidDevice_init (Some s) p adb_path), h'))
       \<and> (environ h ''ANDROID_SERIAL'' = Some e \<and> e \<notin> set devices \<longrightarrow>
            get_device None p adb_path h = (Inl (DeviceNotFoundError e), h'))
       \<and> (environ h ''ANDROID_SERIAL'' = Some e \<and> e \<in> set devices \<longrightarrow>
            get_device None p adb_path h = (Inr (AndroidDevice_init (Some e) p adb_path), h'))
       \<and> (environ h ''ANDROID_SERIAL'' = None \<and> length devices \<noteq> 1 \<longrightarrow>
            get_device None p adb_path h = (Inl NoUniqueDeviceError, h'))
       \<and> (environ h ''ANDROID_SERIAL'' = None \<and> devices = [only] \<longrightarrow>
            get_device None p adb_path h = (Inr (AndroidDevice_init (Some only) p adb_path), h'))"
proof -
  note bs = get_device_by_serial_eq[OF assms]
  note un = get_unique_device_eq[OF assms]
  have a: "get_device (Some s) p adb_path h = get_device_by_serial s p adb_path h"
    by (simp add: get_device_def)
  have b: "environ h ''ANDROID_SERIAL'' = Some e \<longrightarrow>
            get_device None p adb_path h = get_device_by_serial e p adb_path h"
    by (simp add: get_device_def)
  have c: "environ h ''ANDROID_SERIAL'' = None \<longrightarrow>
            get_device None p adb_path h = get_unique_device p adb_path h"
    by (simp add: get_device_def)
  have d: "s \<notin> set devices \<longrightarrow>
            get_device (Some s) p adb_path h = (Inl (DeviceNotFoundError s), h')"
    by (simp add: a bs)
  have d': "s \<in> set devices \<longrightarrow>
            get_device (Some s) p adb_path h = (Inr (AndroidDevice_init (Some s) p adb_path), h')"
    by (simp add: a bs)
  have e: "environ h ''ANDROID_SERIAL'' = Some e \<and> e \<notin> set devices \<longrightarrow>
            get_device None p adb_path h = (Inl (DeviceNotFoundError e), h')"
    using b by (simp add: bs)
  have e': "environ h ''ANDROID_SERIAL'' = Some e \<and> e \<in> set devices \<longrightarrow>
            get_device None p adb_path h = (Inr (AndroidDevice_init (Some e) p adb_path), h')"
    using b by (simp add: bs)
  have f: "environ h ''ANDROID_SERIAL'' = None \<and> length devices \<noteq> 1 \<longrightarrow>
            get_device None p adb_path h = (Inl NoUniqueDeviceError, h')"
    using c by (simp add: un)
  have g: "environ h ''ANDROID_SERIAL'' = None \<and> devices = [only] \<longrightarrow>
            get_device None p adb_path h = (Inr (AndroidDevice_init (Some only) p adb_path), h')"
    using c by (auto simp add: un)
  from a b c d d' e e' f g show ?thesis by (intro conjI)
qed

theorem get_device_resolution_order_witness:
  "(get_devices ''adb'' (example_host [] (0, (''List of devices attached'' @ [LF] @ ''a'' @ [TAB] @ ''device'' @ [LF] @ ''b'' @ [TAB] @ ''device'' @ [LF, LF]), [])) = (Inr [''a'', ''b''], ((example_host [] (0, (''List of devices attached'' @ [LF] @ ''a'' @ [TAB] @ ''device'' @ [LF] @ ''b'' @ [TAB] @ ''device'' @ [LF, LF]), []))\<lparr>calls := [[''adb'', ''start-server''], [''adb'', ''devices'']]\<rparr>))
    \<and> get_device (Some ''c'') None ''adb'' (example_host [] (0, (''List of devices attached'' @ [LF] @ ''a'' @ [TAB] @ ''device'' @ [LF] @ ''b'' @ [TAB] @ ''device'' @ [LF, LF]), [])) = (Inl (DeviceNotFoundError ''c''), ((example_host [] (0, (''List of devices attached'' @ [LF] @ ''a'' @ [TAB] @ ''device'' @ [LF] @ ''b'' @ [TAB] @ ''device'' @ [LF, LF]), []))\<lparr>calls := [[''adb'', ''start-server''], [''adb'', ''devices'']]\<rparr>))
    \<and> environ (example_host [] (0, (''List of devices attached'' @ [LF] @ ''a'' @ [TAB] @ ''device'' @ [LF] @ ''b'' @ [TAB] @ ''device'' @ [LF, LF]), [])) ''ANDROID_SERIAL'' = None
    \<and> get_device None None ''adb'' (example_host [] (0, (''List of devices attached'' @ [LF] @ ''a'' @ [TAB] @ ''device'' @ [LF] @ ''b'' @ [TAB] @ ''device'' @ [LF, LF]), [])) = (Inl NoUniqueDeviceError, ((example_host [] (0, (''List of devices attached'' @ [LF] @ ''a'' @ [TAB] @ ''device'' @ [LF] @ ''b'' @ [TAB] @ ''device'' @ [LF, LF]), []))\<lparr>calls := [[''adb'', ''start-server''], [''adb'', ''devices'']]\<rparr>)))
   \<and> (get_devices ''adb'' (example_host [] (0, (''List of devices attached'' @ [LF, LF]), [])) = (Inr [], ((example_host [] (0, (''List of devices attached'' @ [LF, LF]), []))\<lparr>calls := [[''adb'', ''start-server''], [''adb'', ''devices'']]\<rparr>))
    \<and> environ (example_host [] (0, (''List of devices attached'' @ [LF, LF]), [])) ''ANDROID_SERIAL'' = None
    \<and> get_device None None ''adb'' (example_host [] (0, (''List of devices attached'' @ [LF, LF]), [])) = (Inl NoUniqueDeviceError, ((example_host [] (0, (''List of devices attached'' @ [LF, LF]), []))\<lparr>calls := [[''adb'', ''start-server''], [''adb'', ''devices'']]\<rparr>)))
   \<and> (get_devices ''adb'' (example_host [] (0, (''List of devices attached'' @ [LF] @ ''only'' @ [TAB] @ ''device'' @ [LF, LF]), [])) = (Inr [''only''], ((example_host [] (0, (''List of devices attached'' @ [LF] @ ''only'' @ [TAB] @ ''device'' @ [LF, LF]), []))\<lparr>calls := [[''adb'', ''start-server''], [''adb'', ''devices'']]\<rparr>))
    \<and> environ (example_host [] (0, (''List of devices attached'' @ [LF] @ ''only'' @ [TAB] @ ''device'' @ [LF, LF]), [])) ''ANDROID_SERIAL'' = None
    \<and> get_device None None ''adb'' (example_host [] (0, (''List of devices attached'' @ [LF] @ ''only'' @ [TAB] @ ''device'' @ [LF, LF]), [])) = (Inr (AndroidDevice_init (Some ''only'') None ''adb''), ((example_host [] (0, (''List of devices attached'' @ [LF] @ ''only'' @ [TAB] @ ''device'' @ [LF, LF]), []))\<lparr>calls := [[''adb'', ''start-server''], [''adb'', ''devices'']]\<rparr>))
    \<and> adb_cmd (AndroidDevice_init (Some ''only'') None ''adb'') = [''adb'', ''-s'', ''only''])
   \<and> (get_devices ''adb'' ((example_host [] (0, (''List of devices attached'' @ [LF] @ ''a'' @ [TAB] @ ''device'' @ [LF] @ ''b'' @ [TAB] @ ''device'' @ [LF, LF]), []))\<lparr>environ := [''ANDROID_SERIAL'' \<mapsto> ''b'']\<rparr>) = (Inr [''a'', ''b''], (((example_host [] (0, (''List of devices attached'' @ [LF] @ ''a'' @ [TAB] @ ''device'' @ [LF] @ ''b'' @ [TAB] @ ''device'' @ [LF, LF]), []))\<lparr>environ := [''ANDROID_SERIAL'' \<mapsto> ''b'']\<rparr>)\<lparr>calls := [[''adb'', ''start-server''], [''adb'', ''devices'']]\<rparr>))
    \<and> environ ((example_host [] (0, (''List of devices attached'' @ [LF] @ ''a'' @ [TAB] @ ''device'' @ [LF] @ ''b'' @ [TAB] @ ''device'' @ [LF, LF]), []))\<lparr>environ := [''ANDROID_SERIAL'' \<mapsto> ''b'']\<rparr>) ''ANDROID_SERIAL'' = Some ''b''
    \<and> get_device None None ''adb'' ((example_host [] (0, (''List of devices attached'' @ [LF] @ ''a'' @ [TAB] @ ''device'' @ [LF] @ ''b'' @ [TAB] @ ''device'' @ [LF, LF]), []))\<lparr>environ := [''ANDROID_SERIAL'' \<mapsto> ''b'']\<rparr>) = (Inr (AndroidDevice_init (Some ''b'') None ''adb''), (((example_host [] (0, (''List of devices attached'' @ [LF] @ ''a'' @ [TAB] @ ''device'' @ [LF] @ ''b'' @ [TAB] @ ''device'' @ [LF, LF]), []))\<lparr>environ := [''ANDROID_SERIAL'' \<mapsto> ''b'']\<rparr>)\<lparr>calls := [[''adb'', ''start-server''], [''adb'', ''devices'']]\<rparr>))
    \<and> get_device (Some ''a'') None ''adb'' ((example_host [] (0, (''List of devices attached'' @ [LF] @ ''a'' @ [TAB] @ ''device'' @ [LF] @ ''b'' @ [TAB] @ ''device'' @ [LF, LF]), []))\<lparr>environ := [''ANDROID_SERIAL'' \<mapsto> ''b'']\<rparr>) = (Inr (AndroidDevice_init (Some ''a'') None ''adb''), (((example_host [] (0, (''List of devices attached'' @ [LF] @ ''a'' @ [TAB] @ ''device'' @ [LF] @ ''b'' @ [TAB] @ ''device'' @ [LF, LF]), []))\<lparr>environ := [''ANDROID_SERIAL'' \<mapsto> ''b'']\<rparr>)\<lparr>calls := [[''adb'', ''start-server''], [''adb'', ''devices'']]\<rparr>)))"
proof -
  have lab: "get_devices_loop (drop 1 (splitlines (''List of devices attached'' @ [LF] @ ''a'' @ [TAB] @ ''device'' @ [LF] @ ''b'' @ [TAB] @ ''device'' @ [LF, LF]))) [] = Inr [''a'', ''b'']"
    by code_simp
  have l0: "get_devices_loop (drop 1 (splitlines (''List of devices attached'' @ [LF, LF]))) [] = Inr []"
    by code_simp
  have l1: "get_devices_loop (drop 1 (splitlines (''List of devices attached'' @ [LF] @ ''only'' @ [TAB] @ ''device'' @ [LF, LF]))) [] = Inr [''only'']"
    by code_simp
  have re: "respond ((example_host [] (0, (''List of devices attached'' @ [LF] @ ''a'' @ [TAB] @ ''device'' @ [LF] @ ''b'' @ [TAB] @ ''device'' @ [LF, LF]), []))\<lparr>environ := [''ANDROID_SERIAL'' \<mapsto> ''b'']\<rparr>) = (\<lambda>log cmd. (0, (''List of devices attached'' @ [LF] @ ''a'' @ [TAB] @ ''device'' @ [LF] @ ''b'' @ [TAB] @ ''device'' @ [LF, LF]), []))"
    by (simp add: example_host_def)
  have ce: "calls ((example_host [] (0, (''List of devices attached'' @ [LF] @ ''a'' @ [TAB] @ ''device'' @ [LF] @ ''b'' @ [TAB] @ ''device'' @ [LF, LF]), []))\<lparr>environ := [''ANDROID_SERIAL'' \<mapsto> ''b'']\<rparr>) = []"
    by (simp add: example_host_def)
  have gab: "get_devices ''adb'' (example_host [] (0, (''List of devices attached'' @ [LF] @ ''a'' @ [TAB] @ ''device'' @ [LF] @ ''b'' @ [TAB] @ ''device'' @ [LF, LF]), [])) = (Inr [''a'', ''b''], ((example_host [] (0, (''List of devices attached'' @ [LF] @ ''a'' @ [TAB] @ ''device'' @ [LF] @ ''b'' @ [TAB] @ ''device'' @ [LF, LF]), []))\<lparr>calls := [[''adb'', ''start-server''], [''adb'', ''devices'']]\<rparr>))"
    by (simp only: get_devices_quiet_host(3)[OF example_host_quiet] lab example_host_calls append_Nil)
  have g0: "get_devices ''adb'' (example_host [] (0, (''List of devices attached'' @ [LF, LF]), [])) = (Inr [], ((example_host [] (0, (''List of devices attached'' @ [LF, LF]), []))\<lparr>calls := [[''adb'', ''start-server''], [''adb'', ''devices'']]\<rparr>))"
    by (simp only: get_devices_quiet_host(3)[OF example_host_quiet] l0 example_host_calls append_Nil)
  have g1: "get_devices ''adb'' (example_host [] (0, (''List of devices attached'' @ [LF] @ ''only'' @ [TAB] @ ''device'' @ [LF, LF]), [])) = (Inr [''only''], ((example_host [] (0, (''List of devices attached'' @ [LF] @ ''only'' @ [TAB] @ ''device'' @ [LF, LF]), []))\<lparr>calls := [[''adb'', ''start-server''], [''adb'', ''devices'']]\<rparr>))"
    by (simp only: get_devices_quiet_host(3)[OF example_host_quiet] l1 example_host_calls append_Nil)
  have ge: "get_devices ''adb'' ((example_host [] (0, (''List of devices attached'' @ [LF] @ ''a'' @ [TAB] @ ''device'' @ [LF] @ ''b'' @ [TAB] @ ''device'' @ [LF, LF]), []))\<lparr>environ := [''ANDROID_SERIAL'' \<mapsto> ''b'']\<rparr>) = (Inr [''a'', ''b''], (((example_host [] (0, (''List of devices attached'' @ [LF] @ ''a'' @ [TAB] @ ''device'' @ [LF] @ ''b'' @ [TAB] @ ''device'' @ [LF, LF]), []))\<lparr>environ := [''ANDROID_SERIAL'' \<mapsto> ''b'']\<rparr>)\<lparr>calls := [[''adb'', ''start-server''], [''adb'', ''devices'']]\<rparr>))"
    by (simp only: get_devices_quiet_host(3)[OF re] lab ce append_Nil)
  have eab: "environ (example_host [] (0, (''List of devices attached'' @ [LF] @ ''a'' @ [TAB] @ ''device'' @ [LF] @ ''b'' @ [TAB] @ ''device'' @ [LF, LF]), [])) ''ANDROID_SERIAL'' = None" by (simp add: example_host_def)
  have e0: "environ (example_host [] (0, (''List of devices attached'' @ [LF, LF]), [])) ''ANDROID_SERIAL'' = None" by (simp add: example_host_def)
  have e1: "environ (example_host [] (0, (''List of devices attached'' @ [LF] @ ''only'' @ [TAB] @ ''device'' @ [LF, LF]), [])) ''ANDROID_SERIAL'' = None" by (simp add: example_host_def)
  have ee: "environ ((example_host [] (0, (''List of devices attached'' @ [LF] @ ''a'' @ [TAB] @ ''device'' @ [LF] @ ''b'' @ [TAB] @ ''device'' @ [LF, LF]), []))\<lparr>environ := [''ANDROID_SERIAL'' \<mapsto> ''b'']\<rparr>) ''ANDROID_SERIAL'' = Some ''b''" by simp
  have x1: "get_device (Some ''c'') None ''adb'' (example_host [] (0, (''List of devices attached'' @ [LF] @ ''a'' @ [TAB] @ ''device'' @ [LF] @ ''b'' @ [TAB] @ ''device'' @ [LF, LF]), [])) = (Inl (DeviceNotFoundError ''c''), ((example_host [] (0, (''List of devices attached'' @ [LF] @ ''a'' @ [TAB] @ ''device'' @ [LF] @ ''b'' @ [TAB] @ ''device'' @ [LF, LF]), []))\<lparr>calls := [[''adb'', ''start-server''], [''adb'', ''devices'']]\<rparr>))"
    by (rule get_device_resolution_order[OF gab, THEN conjunct2, THEN conjunct2, THEN conjunct2, THEN conjunct1, THEN mp]) simp
  have x2: "get_device None None ''adb'' (example_host [] (0, (''List of devices attached'' @ [LF] @ ''a'' @ [TAB] @ ''device'' @ [LF] @ ''b'' @ [TAB] @ ''device'' @ [LF, LF]), [])) = (Inl NoUniqueDeviceError, ((example_host [] (0, (''List of devices attached'' @ [LF] @ ''a'' @ [TAB] @ ''device'' @ [LF] @ ''b'' @ [TAB] @ ''device'' @ [LF, LF]), []))\<lparr>calls := [[''adb'', ''start-server''], [''adb'', ''devices'']]\<rparr>))"
    by (rule get_device_resolution_order[OF gab, THEN conjunct2, THEN conjunct2, THEN conjunct2, THEN conjunct2, THEN conjunct2, THEN conjunct2, THEN conjunct2, THEN conjunct1, THEN mp]) (use eab in simp)
  have x3: "get_device None None ''adb'' (example_host [] (0, (''List of devices attached'' @ [LF, LF]), [])) = (Inl NoUniqueDeviceError, ((example_host [] (0, (''List of devices attached'' @ [LF, LF]), []))\<lparr>calls := [[''adb'', ''start-server''], [''adb'', ''devices'']]\<rparr>))"
    by (rule get_device_resolution_order[OF g0, THEN conjunct2, THEN conjunct2, THEN conjunct2, THEN conjunct2, THEN conjunct2, THEN conjunct2, THEN conjunct2, THEN conjunct1, THEN mp]) (use e0 in simp)
  have x4: "get_device None None ''adb'' (example_host [] (0, (''List of devices attached'' @ [LF] @ ''only'' @ [TAB] @ ''device'' @ [LF, LF]), [])) = (Inr (AndroidDevice_init (Some ''only'') None ''adb''), ((example_host [] (0, (''List of devices attached'' @ [LF] @ ''only'' @ [TAB] @ ''device'' @ [LF, LF]), []))\<lparr>calls := [[''adb'', ''start-server''], [''adb'', ''devices'']]\<rparr>))"
    by (rule get_device_resolution_order[OF g1, THEN conjunct2, THEN conjunct2, THEN conjunct2, THEN conjunct2, THEN conjunct2, THEN conjunct2, THEN conjunct2, THEN conjunct2, THEN mp]) (use e1 in simp)
  have x5: "adb_cmd (AndroidDevice_init (Some ''only'') None ''adb'') = [''adb'', ''-s'', ''only'']"
    by (simp add: AndroidDevice_init_def)
  have x6: "get_device None None ''adb'' ((example_host [] (0, (''List of devices attached'' @ [LF] @ ''a'' @ [TAB] @ ''device'' @ [LF] @ ''b'' @ [TAB] @ ''device'' @ [LF, LF]), []))\<lparr>environ := [''ANDROID_SERIAL'' \<mapsto> ''b'']\<rparr>) = (Inr (AndroidDevice_init (Some ''b'') None ''adb''), (((example_host [] (0, (''List of devices attached'' @ [LF] @ ''a'' @ [TAB] @ ''device'' @ [LF] @ ''b'' @ [TAB] @ ''device'' @ [LF, LF]), []))\<lparr>environ := [''ANDROID_SERIAL'' \<mapsto> ''b'']\<rparr>)\<lparr>calls := [[''adb'', ''start-server''], [''adb'', ''devices'']]\<rparr>))"
    by (rule get_device_resolution_order[OF ge, THEN conjunct2, THEN conjunct2, THEN conjunct2, THEN conjunct2, THEN conjunct2, THEN conjunct2, THEN conjunct1, THEN mp]) (use ee in simp)
  have x7: "get_device (Some ''a'') None ''adb'' ((example_host [] (0, (''List of devices attached'' @ [LF] @ ''a'' @ [TAB] @ ''device'' @ [LF] @ ''b'' @ [TAB] @ ''device'' @ [LF, LF]), []))\<lparr>environ := [''ANDROID_SERIAL'' \<mapsto> ''b'']\<rparr>) = (Inr (AndroidDevice_init (Some ''a'') None ''adb''), (((example_host [] (0, (''List of devices attached'' @ [LF] @ ''a'' @ [TAB] @ ''device'' @ [LF] @ ''b'' @ [TAB] @ ''device'' @ [LF, LF]), []))\<lparr>environ := [''ANDROID_SERIAL'' \<mapsto> ''b'']\<rparr>)\<lparr>calls := [[''adb'', ''start-server''], [''adb'', ''devices'']]\<rparr>))"
    by (rule get_device_resolution_order[OF ge, THEN conjunct2, THEN conjunct2, THEN conjunct2, THEN conjunct2, THEN conjunct1, THEN mp]) simp
  show ?thesis
    by (rule conjI[OF conjI[OF gab conjI[OF x1 conjI[OF eab x2]]]
          conjI[OF conjI[OF g0 conjI[OF e0 x3]]
            conjI[OF conjI[OF g1 conjI[OF e1 conjI[OF x4 x5]]]
              conjI[OF ge conjI[OF ee conjI[OF x6 x7]]]]]])
qed

text \<open>
  What \<^verbatim>\<open>get_devices\<close> computes on any listing: it skips the first line, drops the lines that
  are blank and the lines that hold the text \<^verbatim>\<open>offline\<close> anywhere, and returns for the lines
  that remain, in the listed order, the text before their first whitespace; a line that
  remains and holds no whitespace raises \<^verbatim>\<open>ValueError\<close>. On the listing of the one device
  \<^verbatim>\<open>abc123\<close> it returns that serial.
\<close>

lemma get_devices_drops_lines_with_offline:
  assumes "check_call [adb_path, ''start-server''] h = (Inr (), h1)"
    and "check_output [adb_path, ''devices''] h1 = (Inr out, h2)"
  shows "get_devices adb_path h =
     (if \<forall>l\<in>set (filter (\<lambda>l. strip l \<noteq> [] \<and> \<not> str_contains ''offline'' l) (drop 1 (splitlines out))).
           \<exists>c\<in>set l. isspace c
      then Inr (map (takeWhile (\<lambda>c. \<not> isspace c))
                  (filter (\<lambda>l. strip l \<noteq> [] \<and> \<not> str_contains ''offline'' l) (drop 1 (splitlines out))))
      else Inl ValueError, h2)"
  by (simp only: get_devices_def assms prod.case sum.case get_devices_loop_eq append_Nil)

lemma get_devices_on_sample_listings:
  "(check_call [''adb'', ''start-server''] (example_host [] (0, (''List of attached devices'' @ [LF, LF] @ ''abc123'' @ [TAB] @ ''device'' @ [LF]), [])) = (Inr (), ((example_host [] (0, (''List of attached devices'' @ [LF, LF] @ ''abc123'' @ [TAB] @ ''device'' @ [LF]), []))\<lparr>calls := [[''adb'', ''start-server'']]\<rparr>))
    \<and> check_output [''adb'', ''devices''] ((example_host [] (0, (''List of attached devices'' @ [LF, LF] @ ''abc123'' @ [TAB] @ ''device'' @ [LF]), []))\<lparr>calls := [[''adb'', ''start-server'']]\<rparr>) = (Inr (''List of attached devices'' @ [LF, LF] @ ''abc123'' @ [TAB] @ ''device'' @ [LF]), ((example_host [] (0, (''List of attached devices'' @ [LF, LF] @ ''abc123'' @ [TAB] @ ''device'' @ [LF]), []))\<lparr>calls := [[''adb'', ''start-server''], [''adb'', ''devices'']]\<rparr>)))
   \<and> get_devices ''adb'' (example_host [] (0, (''List of attached devices'' @ [LF, LF] @ ''abc123'' @ [TAB] @ ''device'' @ [LF]), [])) = (Inr [''abc123''], ((example_host [] (0, (''List of attached devices'' @ [LF, LF] @ ''abc123'' @ [TAB] @ ''device'' @ [LF]), []))\<lparr>calls := [[''adb'', ''start-server''], [''adb'', ''devices'']]\<rparr>))
   \<and> (check_call [''adb'', ''start-server''] (example_host [] (0, (''List of devices attached'' @ [LF] @ ''abc123'' @ [TAB] @ ''device'' @ [LF] @ ''emulator-5554'' @ [TAB] @ ''offline'' @ [LF] @ ''10.0.0.7:5555'' @ [TAB] @ ''unauthorized'' @ [LF, LF]), [])) = (Inr (), ((example_host [] (0, (''List of devices attached'' @ [LF] @ ''abc123'' @ [TAB] @ ''device'' @ [LF] @ ''emulator-5554'' @ [TAB] @ ''offline'' @ [LF] @ ''10.0.0.7:5555'' @ [TAB] @ ''unauthorized'' @ [LF, LF]), []))\<lparr>calls := [[''adb'', ''start-server'']]\<rparr>))
    \<and> check_output [''adb'', ''devices''] ((example_host [] (0, (''List of devices attached'' @ [LF] @ ''abc123'' @ [TAB] @ ''device'' @ [LF] @ ''emulator-5554'' @ [TAB] @ ''offline'' @ [LF] @ ''10.0.0.7:5555'' @ [TAB] @ ''unauthorized'' @ [LF, LF]), []))\<lparr>calls := [[''adb'', ''start-server'']]\<rparr>) = (Inr (''List of devices attached'' @ [LF] @ ''abc123'' @ [TAB] @ ''device'' @ [LF] @ ''emulator-5554'' @ [TAB] @ ''offline'' @ [LF] @ ''10.0.0.7:5555'' @ [TAB] @ ''unauthorized'' @ [LF, LF]), ((example_host [] (0, (''List of devices attached'' @ [LF] @ ''abc123'' @ [TAB] @ ''device'' @ [LF] @ ''emulator-5554'' @ [TAB] @ ''offline'' @ [LF] @ ''10.0.0.7:5555'' @ [TAB] @ ''unauthorized'' @ [LF, LF]), []))\<lparr>calls := [[''adb'', ''start-server''], [''adb'', ''devices'']]\<rparr>)))
   \<and> get_devices ''adb'' (example_host [] (0, (''List of devices attached'' @ [LF] @ ''abc123'' @ [TAB] @ ''device'' @ [LF] @ ''emulator-5554'' @ [TAB] @ ''offline'' @ [LF] @ ''10.0.0.7:5555'' @ [TAB] @ ''unauthorized'' @ [LF, LF]), [])) = (Inr [''abc123'', ''10.0.0.7:5555''], ((example_host [] (0, (''List of devices attached'' @ [LF] @ ''abc123'' @ [TAB] @ ''device'' @ [LF] @ ''emulator-5554'' @ [TAB] @ ''offline'' @ [LF] @ ''10.0.0.7:5555'' @ [TAB] @ ''unauthorized'' @ [LF, LF]), []))\<lparr>calls := [[''adb'', ''start-server''], [''adb'', ''devices'']]\<rparr>))"
proof -
  have c1: "check_call [''adb'', ''start-server''] (example_host [] (0, (''List of attached devices'' @ [LF, LF] @ ''abc123'' @ [TAB] @ ''device'' @ [LF]), [])) = (Inr (), ((example_host [] (0, (''List of attached devices'' @ [LF, LF] @ ''abc123'' @ [TAB] @ ''device'' @ [LF]), []))\<lparr>calls := [[''adb'', ''start-server'']]\<rparr>))"
    using get_devices_quiet_host(1)[OF example_host_quiet, of "''adb''" "[]" "(''List of attached devices'' @ [LF, LF] @ ''abc123'' @ [TAB] @ ''device'' @ [LF])" "[]"]
    by (simp add: example_host_calls)
  have c2: "check_output [''adb'', ''devices''] ((example_host [] (0, (''List of attached devices'' @ [LF, LF] @ ''abc123'' @ [TAB] @ ''device'' @ [LF]), []))\<lparr>calls := [[''adb'', ''start-server'']]\<rparr>) = (Inr (''List of attached devices'' @ [LF, LF] @ ''abc123'' @ [TAB] @ ''device'' @ [LF]), ((example_host [] (0, (''List of attached devices'' @ [LF, LF] @ ''abc123'' @ [TAB] @ ''device'' @ [LF]), []))\<lparr>calls := [[''adb'', ''start-server''], [''adb'', ''devices'']]\<rparr>))"
    using get_devices_quiet_host(2)[OF example_host_quiet, of "''adb''" "[]" "(''List of attached devices'' @ [LF, LF] @ ''abc123'' @ [TAB] @ ''device'' @ [LF])" "[]"]
    by (simp add: example_host_calls)
  have ce: "(if \<forall>l\<in>set (filter (\<lambda>l. strip l \<noteq> [] \<and> \<not> str_contains ''offline'' l) (drop 1 (splitlines (''List of attached devices'' @ [LF, LF] @ ''abc123'' @ [TAB] @ ''device'' @ [LF])))).
           \<exists>c\<in>set l. isspace c
      then Inr (map (takeWhile (\<lambda>c. \<not> isspace c))
                  (filter (\<lambda>l. strip l \<noteq> [] \<and> \<not> str_contains ''offline'' l) (drop 1 (splitlines (''List of attached devices'' @ [LF, LF] @ ''abc123'' @ [TAB] @ ''device'' @ [LF])))))
      else Inl ValueError) = Inr [''abc123'']"
    by code_simp
  have d1: "check_call [''adb'', ''start-server''] (example_host [] (0, (''List of devices attached'' @ [LF] @ ''abc123'' @ [TAB] @ ''device'' @ [LF] @ ''emulator-5554'' @ [TAB] @ ''offline'' @ [LF] @ ''10.0.0.7:5555'' @ [TAB] @ ''unauthorized'' @ [LF, LF]), [])) = (Inr (), ((example_host [] (0, (''List of devices attached'' @ [LF] @ ''abc123'' @ [TAB] @ ''device'' @ [LF] @ ''emulator-5554'' @ [TAB] @ ''offline'' @ [LF] @ ''10.0.0.7:5555'' @ [TAB] @ ''unauthorized'' @ [LF, LF]), []))\<lparr>calls := [[''adb'', ''start-server'']]\<rparr>))"
    using get_devices_quiet_host(1)[OF example_host_quiet, of "''adb''" "[]" "(''List of devices attached'' @ [LF] @ ''abc123'' @ [TAB] @ ''device'' @ [LF] @ ''emulator-5554'' @ [TAB] @ ''offline'' @ [LF] @ ''10.0.0.7:5555'' @ [TAB] @ ''unauthorized'' @ [LF, LF])" "[]"]
    by (simp add: example_host_calls)
  have d2: "check_output [''adb'', ''devices''] ((example_host [] (0, (''List of devices attached'' @ [LF] @ ''abc123'' @ [TAB] @ ''device'' @ [LF] @ ''emulator-5554'' @ [TAB] @ ''offline'' @ [LF] @ ''10.0.0.7:5555'' @ [TAB] @ ''unauthorized'' @ [LF, LF]), []))\<lparr>calls := [[''adb'', ''start-server'']]\<rparr>) = (Inr (''List of devices attached'' @ [LF] @ ''abc123'' @ [TAB] @ ''device'' @ [LF] @ ''emulator-5554'' @ [TAB] @ ''offline'' @ [LF] @ ''10.0.0.7:5555'' @ [TAB] @ ''unauthorized'' @ [LF, LF]), ((example_host [] (0, (''List of devices attached'' @ [LF] @ ''abc123'' @ [TAB] @ ''device'' @ [LF] @ ''emulator-5554'' @ [TAB] @ ''offline'' @ [LF] @ ''10.0.0.7:5555'' @ [TAB] @ ''unauthorized'' @ [LF, LF]), []))\<lparr>calls := [[''adb'', ''start-server''], [''adb'', ''devices'']]\<rparr>))"
    using get_devices_quiet_host(2)[OF example_host_quiet, of "''adb''" "[]" "(''List of devices attached'' @ [LF] @ ''abc123'' @ [TAB] @ ''device'' @ [LF] @ ''emulator-5554'' @ [TAB] @ ''offline'' @ [LF] @ ''10.0.0.7:5555'' @ [TAB] @ ''unauthorized'' @ [LF, LF])" "[]"]
    by (simp add: example_host_calls)
  have de: "(if \<forall>l\<in>set (filter (\<lambda>l. strip l \<noteq> [] \<and> \<not> str_contains ''offline'' l) (drop 1 (splitlines (''List of devices attached'' @ [LF] @ ''abc123'' @ [TAB] @ ''device'' @ [LF] @ ''emulator-5554'' @ [TAB] @ ''offline'' @ [LF] @ ''10.0.0.7:5555'' @ [TAB] @ ''unauthorized'' @ [LF, LF])))).
           \<exists>c\<in>set l. isspace c
      then Inr (map (takeWhile (\<lambda>c. \<not> isspace c))
                  (filter (\<lambda>l. strip l \<noteq> [] \<and> \<not> str_contains ''offline'' l) (drop 1 (splitlines (''List of devices attached'' @ [LF] @ ''abc123'' @ [TAB] @ ''device'' @ [LF] @ ''emulator-5554'' @ [TAB] @ ''offline'' @ [LF] @ ''10.0.0.7:5555'' @ [TAB] @ ''unauthorized'' @ [LF, LF])))))
      else Inl ValueError) = Inr [''abc123'', ''10.0.0.7:5555'']"
    by code_simp
  note tc = get_devices_drops_lines_with_offline[OF c1 c2, unfolded ce]
  note td = get_devices_drops_lines_with_offline[OF d1 d2, unfolded de]
  show ?thesis
    by (rule conjI[OF conjI[OF c1 c2] conjI[OF tc conjI[OF conjI[OF d1 d2] td]]])
qed

text \<open>
  C6. \<^verbatim>\<open>get_devices\<close> is to drop the entries whose state is \<^verbatim>\<open>offline\<close> and no other entry.
  The code does not hold to it: it tests \<^verbatim>\<open>'offline' in line\<close> on the whole line, so the device
  \<^verbatim>\<open>offline-lab-7\<close>, listed in the state \<^verbatim>\<open>device\<close>, is dropped. Then \<^verbatim>\<open>get_device\<close> with that
  serial raises \<^verbatim>\<open>DeviceNotFoundError\<close> for a connected device, and \<^verbatim>\<open>get_device\<close> without a
  serial returns a handle while two devices are connected, where its docstring promises
  \<^verbatim>\<open>NoUniqueDeviceError\<close>.
\<close>

theorem get_devices_drops_online_device:
  "re_split_whitespace_once (''offline-lab-7'' @ [TAB] @ ''device'') = [''offline-lab-7'', ''device'']
   \<and> fst (get_devices ''adb'' (example_host [] (0, (''List of devices attached'' @ [LF] @ ''offline-lab-7'' @ [TAB] @ ''device'' @ [LF, LF]), []))) = Inr []
   \<and> fst (get_device (Some ''offline-lab-7'') None ''adb'' (example_host [] (0, (''List of devices attached'' @ [LF] @ ''offline-lab-7'' @ [TAB] @ ''device'' @ [LF, LF]), [])))
       = Inl (DeviceNotFoundError ''offline-lab-7'')
   \<and> fst (get_devices ''adb'' (example_host [] (0, (''List of devices attached'' @ [LF] @ ''abc123'' @ [TAB] @ ''device'' @ [LF] @ ''offline-lab-7'' @ [TAB] @ ''device'' @ [LF, LF]), []))) = Inr [''abc123'']
   \<and> fst (get_device None None ''adb'' (example_host [] (0, (''List of devices attached'' @ [LF] @ ''abc123'' @ [TAB] @ ''device'' @ [LF] @ ''offline-lab-7'' @ [TAB] @ ''device'' @ [LF, LF]), [])))
       = Inr (AndroidDevice_init (Some ''abc123'') None ''adb'')"
proof -
  have a: "re_split_whitespace_once (''offline-lab-7'' @ [TAB] @ ''device'') = [''offline-lab-7'', ''device'']"
    by code_simp
  have lx: "get_devices_loop (drop 1 (splitlines (''List of devices attached'' @ [LF] @ ''offline-lab-7'' @ [TAB] @ ''device'' @ [LF, LF]))) [] = Inr []"
    by code_simp
  have ly: "get_devices_loop (drop 1 (splitlines (''List of devices attached'' @ [LF] @ ''abc123'' @ [TAB] @ ''device'' @ [LF] @ ''offline-lab-7'' @ [TAB] @ ''device'' @ [LF, LF]))) [] = Inr [''abc123'']"
    by code_simp
  have gx: "get_devices ''adb'' (example_host [] (0, (''List of devices attached'' @ [LF] @ ''offline-lab-7'' @ [TAB] @ ''device'' @ [LF, LF]), [])) = (Inr [], ((example_host [] (0, (''List of devices attached'' @ [LF] @ ''offline-lab-7'' @ [TAB] @ ''device'' @ [LF, LF]), []))\<lparr>calls := [[''adb'', ''start-server''], [''adb'', ''devices'']]\<rparr>))"
    by (simp only: get_devices_quiet_host(3)[OF example_host_quiet] lx example_host_calls append_Nil)
  have gy: "get_devices ''adb'' (example_host [] (0, (''List of devices attached'' @ [LF] @ ''abc123'' @ [TAB] @ ''device'' @ [LF] @ ''offline-lab-7'' @ [TAB] @ ''device'' @ [LF, LF]), [])) = (Inr [''abc123''], ((example_host [] (0, (''List of devices attached'' @ [LF] @ ''abc123'' @ [TAB] @ ''device'' @ [LF] @ ''offline-lab-7'' @ [TAB] @ ''device'' @ [LF, LF]), []))\<lparr>calls := [[''adb'', ''start-server''], [''adb'', ''devices'']]\<rparr>))"
    by (simp only: get_devices_quiet_host(3)[OF example_host_quiet] ly example_host_calls append_Nil)
  have ey: "environ (example_host [] (0, (''List of devices attached'' @ [LF] @ ''abc123'' @ [TAB] @ ''device'' @ [LF] @ ''offline-lab-7'' @ [TAB] @ ''device'' @ [LF, LF]), [])) ''ANDROID_SERIAL'' = None"
    by (simp add: example_host_def)
  have b: "fst (get_devices ''adb'' (example_host [] (0, (''List of devices attached'' @ [LF] @ ''offline-lab-7'' @ [TAB] @ ''device'' @ [LF, LF]), []))) = Inr []"
    by (simp only: gx fst_conv)
  have "get_device (Some ''offline-lab-7'') None ''adb'' (example_host [] (0, (''List of devices attached'' @ [LF] @ ''offline-lab-7'' @ [TAB] @ ''device'' @ [LF, LF]), []))
      = get_device_by_serial ''offline-lab-7'' None ''adb'' (example_host [] (0, (''List of devices attached'' @ [LF] @ ''offline-lab-7'' @ [TAB] @ ''device'' @ [LF, LF]), []))"
    by (simp only: get_device_def option.case)
  then have c: "fst (get_device (Some ''offline-lab-7'') None ''adb'' (example_host [] (0, (''List of devices attached'' @ [LF] @ ''offline-lab-7'' @ [TAB] @ ''device'' @ [LF, LF]), [])))
       = Inl (DeviceNotFoundError ''offline-lab-7'')"
    by (simp only: get_device_by_serial_eq[OF gx]) simp
  have d: "fst (get_devices ''adb'' (example_host [] (0, (''List of devices attached'' @ [LF] @ ''abc123'' @ [TAB] @ ''device'' @ [LF] @ ''offline-lab-7'' @ [TAB] @ ''device'' @ [LF, LF]), []))) = Inr [''abc123'']"
    by (simp only: gy fst_conv)
  have "get_device None None ''adb'' (example_host [] (0, (''List of devices attached'' @ [LF] @ ''abc123'' @ [TAB] @ ''device'' @ [LF] @ ''offline-lab-7'' @ [TAB] @ ''device'' @ [LF, LF]), [])) = get_unique_device None ''adb'' (example_host [] (0, (''List of devices attached'' @ [LF] @ ''abc123'' @ [TAB] @ ''device'' @ [LF] @ ''offline-lab-7'' @ [TAB] @ ''device'' @ [LF, LF]), []))"
    by (simp only: get_device_def option.case ey)
  then have e: "fst (get_device None None ''adb'' (example_host [] (0, (''List of devices attached'' @ [LF] @ ''abc123'' @ [TAB] @ ''device'' @ [LF] @ ''offline-lab-7'' @ [TAB] @ ''device'' @ [LF, LF]), [])))
       = Inr (AndroidDevice_init (Some ''abc123'') None ''adb'')"
    by (simp only: get_unique_device_eq[OF gy]) simp
  show ?thesis
    by (rule conjI[OF a conjI[OF b conjI[OF c conjI[OF d e]]]])
qed

section \<open>Reading properties\<close>

lemma example_features_v2:
  "features example_device (example_host (''shell_v2'' @ [LF]) reply) =
     ([''shell_v2''], example_device\<lparr>priv_features := Some [''shell_v2'']\<rparr>,
      (example_host (''shell_v2'' @ [LF]) reply)\<lparr>calls := [[''adb'', ''-s'', ''abc123'', ''features'']]\<rparr>)"
proof -
  have s: "splitlines (''shell_v2'' @ [LF]) = [''shell_v2'']" by code_simp
  show ?thesis by (simp only: example_features s)
qed

lemma example_shell_structured:
  "shell example_device cmd (example_host (''shell_v2'' @ [LF]) (0, out, err)) =
     (Inr (out, err), example_device\<lparr>priv_features := Some [''shell_v2'']\<rparr>,
      (example_host (''shell_v2'' @ [LF]) (0, out, err))
        \<lparr>calls := [[''adb'', ''-s'', ''abc123'', ''features''],
                    [''adb'', ''-s'', ''abc123'', ''shell''] @ cmd]\<rparr>)"
proof -
  have v: "SHELL_PROTOCOL_FEATURE \<in> set [''shell_v2'']"
    by (simp add: SHELL_PROTOCOL_FEATURE_def)
  have "shell_nocheck example_device cmd (example_host (''shell_v2'' @ [LF]) (0, out, err)) =
     (Inr (0, out, err), example_device\<lparr>priv_features := Some [''shell_v2'']\<rparr>,
      (example_host (''shell_v2'' @ [LF]) (0, out, err))
        \<lparr>calls := [[''adb'', ''-s'', ''abc123'', ''features''],
                    [''adb'', ''-s'', ''abc123'', ''shell''] @ cmd]\<rparr>)"
    using shell_nocheck_structured[OF example_features_v2 v, where cmd = cmd and reply1 = "(0, out, err)"]
    by (simp add: example_adb_cmd example_respond)
  then show ?thesis by (simp add: shell_def)
qed

lemma rpartition_decompose:
  assumes "sep \<in> set s"
  shows "\<exists>a t. s = a @ sep # t \<and> sep \<notin> set t \<and> rpartition s sep = (a, [sep], t)"
proof -
  from assms obtain a t where s: "s = a @ sep # t" and t: "sep \<notin> set t"
    using split_list_last by fastforce
  have "rpartition (a @ sep # t) sep = (a, [sep], t)" using t by (rule rpartition_found)
  then show ?thesis using s t by blast
qed

lemma takeWhile_upto:
  assumes "x \<notin> set k"
  shows "takeWhile (\<lambda>c. c \<noteq> x) (k @ x # r) = k" and "dropWhile (\<lambda>c. c \<noteq> x) (k @ x # r) = x # r"
proof -
  have a: "\<And>c. c \<in> set k \<Longrightarrow> c \<noteq> x" using assms by auto
  have "takeWhile (\<lambda>c. c \<noteq> x) (k @ x # r) = k @ takeWhile (\<lambda>c. c \<noteq> x) (x # r)"
    by (rule takeWhile_append2) (rule a)
  then show "takeWhile (\<lambda>c. c \<noteq> x) (k @ x # r) = k" by simp
  have "dropWhile (\<lambda>c. c \<noteq> x) (k @ x # r) = dropWhile (\<lambda>c. c \<noteq> x) (x # r)"
    by (rule dropWhile_append2) (rule a)
  then show "dropWhile (\<lambda>c. c \<noteq> x) (k @ x # r) = x # r" by simp
qed

lemma getprop_match_exact:
  assumes k: "k \<noteq> []" "CHR '']'' \<notin> set k" and v: "LF \<notin> set v" and t: "CHR '']'' \<notin> set t"
  shows "getprop_match (''['' @ k @ '']: ['' @ v @ '']'' @ t) = Some (k, v)"
proof -
  have tk: "takeWhile (\<lambda>c. c \<noteq> CHR '']'') (k @ CHR '']'' # '': ['' @ v @ '']'' @ t) = k"
    and dk: "dropWhile (\<lambda>c. c \<noteq> CHR '']'') (k @ CHR '']'' # '': ['' @ v @ '']'' @ t)
               = CHR '']'' # '': ['' @ v @ '']'' @ t"
    using k(2) by (rule takeWhile_upto)+
  have all: "\<And>c. c \<in> set v \<Longrightarrow> c \<noteq> LF" using v by auto
  have "takeWhile (\<lambda>c. c \<noteq> LF) (v @ CHR '']'' # t)
          = v @ takeWhile (\<lambda>c. c \<noteq> LF) (CHR '']'' # t)"
    by (rule takeWhile_append2) (rule all)
  then have dots: "takeWhile (\<lambda>c. c \<noteq> LF) (v @ CHR '']'' # t)
          = v @ CHR '']'' # takeWhile (\<lambda>c. c \<noteq> LF) t"
    by (simp add: LF_def)
  have "CHR '']'' \<notin> set (takeWhile (\<lambda>c. c \<noteq> LF) t)"
    using t by (auto dest: set_takeWhileD)
  then have rp: "rpartition (v @ CHR '']'' # takeWhile (\<lambda>c. c \<noteq> LF) t) CHR '']''
      = (v, '']'', takeWhile (\<lambda>c. c \<noteq> LF) t)"
    by (rule rpartition_found)
  have l: "''['' @ k @ '']: ['' @ v @ '']'' @ t = CHR ''['' # (k @ CHR '']'' # '': ['' @ v @ '']'' @ t)"
    by simp
  show ?thesis
    unfolding l getprop_match_def
    by (simp only: list.case tk dk Let_def k(1) if_False not_not refl if_True drop_Suc_Cons drop_0
        take_Suc_Cons take_0 dots rp prod.case)
       (simp add: dots rp)
qed

lemma getprop_match_accepts:
  assumes k: "k \<noteq> []" "CHR '']'' \<notin> set k" and v: "LF \<notin> set v"
  shows "getprop_match (''['' @ k @ '']: ['' @ v @ '']'' @ t) \<noteq> None"
proof -
  have tk: "takeWhile (\<lambda>c. c \<noteq> CHR '']'') (k @ CHR '']'' # '': ['' @ v @ '']'' @ t) = k"
    and dk: "dropWhile (\<lambda>c. c \<noteq> CHR '']'') (k @ CHR '']'' # '': ['' @ v @ '']'' @ t)
               = CHR '']'' # '': ['' @ v @ '']'' @ t"
    using k(2) by (rule takeWhile_upto)+
  have all: "\<And>c. c \<in> set v \<Longrightarrow> c \<noteq> LF" using v by auto
  have "takeWhile (\<lambda>c. c \<noteq> LF) (v @ CHR '']'' # t)
          = v @ takeWhile (\<lambda>c. c \<noteq> LF) (CHR '']'' # t)"
    by (rule takeWhile_append2) (rule all)
  then have dots: "takeWhile (\<lambda>c. c \<noteq> LF) (v @ CHR '']'' # t)
          = v @ CHR '']'' # takeWhile (\<lambda>c. c \<noteq> LF) t"
    by (simp add: LF_def)
  have "CHR '']'' \<in> set (v @ CHR '']'' # takeWhile (\<lambda>c. c \<noteq> LF) t)" by simp
  then obtain a b where rp: "rpartition (v @ CHR '']'' # takeWhile (\<lambda>c. c \<noteq> LF) t) CHR '']''
      = (a, '']'', b)"
    using rpartition_decompose by blast
  have l: "''['' @ k @ '']: ['' @ v @ '']'' @ t = CHR ''['' # (k @ CHR '']'' # '': ['' @ v @ '']'' @ t)"
    by simp
  show ?thesis
    unfolding l getprop_match_def
    by (simp only: list.case tk dk Let_def k(1) if_False not_not refl if_True drop_Suc_Cons drop_0
        take_Suc_Cons take_0 prod.case)
       (simp add: dots rp)
qed

lemma getprop_match_form:
  assumes "getprop_match line = Some (k, v)"
  shows "\<exists>t. line = ''['' @ k @ '']: ['' @ v @ '']'' @ t
           \<and> k \<noteq> [] \<and> CHR '']'' \<notin> set k \<and> LF \<notin> set v"
proof -
  from assms obtain r where line: "line = CHR ''['' # r"
    by (cases line) (auto simp add: getprop_match_def split: if_splits)
  let ?key = "takeWhile (\<lambda>c. c \<noteq> CHR '']'') r"
  let ?rest = "dropWhile (\<lambda>c. c \<noteq> CHR '']'') r"
  let ?dots = "takeWhile (\<lambda>c. c \<noteq> LF) (drop 4 ?rest)"
  from assms line have key: "?key \<noteq> []" and four: "take 4 ?rest = '']: [''"
    and m: "(case rpartition ?dots CHR '']'' of
               (val, sep, after) \<Rightarrow> if sep = [] then None else Some (?key, val)) = Some (k, v)"
    by (auto simp add: getprop_match_def Let_def split: if_splits)
  have in_dots: "CHR '']'' \<in> set ?dots"
  proof (rule ccontr)
    assume "CHR '']'' \<notin> set ?dots"
    then have "rpartition ?dots CHR '']'' = ([], [], ?dots)" by (rule rpartition_not_found)
    with m show False by simp
  qed
  then obtain a b where d: "?dots = a @ CHR '']'' # b"
    and rp: "rpartition ?dots CHR '']'' = (a, '']'', b)"
    using rpartition_decompose[of "CHR '']''" ?dots] by auto
  from m rp have kv: "k = ?key" "v = a" by simp_all
  have r: "r = ?key @ ?rest" by simp
  have rest: "?rest = take 4 ?rest @ drop 4 ?rest" by simp
  have tail: "drop 4 ?rest = ?dots @ dropWhile (\<lambda>c. c \<noteq> LF) (drop 4 ?rest)" by simp
  have "line = CHR ''['' # ?key @ '']: ['' @ (a @ CHR '']'' # b) @ dropWhile (\<lambda>c. c \<noteq> LF) (drop 4 ?rest)"
    using line r rest tail four d by metis
  then have "line = ''['' @ k @ '']: ['' @ v @ '']'' @ (b @ dropWhile (\<lambda>c. c \<noteq> LF) (drop 4 ?rest))"
    by (simp add: kv)
  moreover have "CHR '']'' \<notin> set k" unfolding kv by (auto dest: set_takeWhileD)
  moreover have "LF \<notin> set v"
  proof
    assume "LF \<in> set v"
    then have "LF \<in> set ?dots" using d kv by simp
    then show False by (auto dest: set_takeWhileD)
  qed
  ultimately show ?thesis using key kv by blast
qed

lemma getprop_match_iff:
  "(getprop_match line \<noteq> None) =
     (\<exists>k v t. line = ''['' @ k @ '']: ['' @ v @ '']'' @ t
         \<and> k \<noteq> [] \<and> CHR '']'' \<notin> set k \<and> LF \<notin> set v)"
proof
  assume "getprop_match line \<noteq> None"
  then obtain k v where "getprop_match line = Some (k, v)" by auto
  from getprop_match_form[OF this] show "\<exists>k v t. line = ''['' @ k @ '']: ['' @ v @ '']'' @ t
         \<and> k \<noteq> [] \<and> CHR '']'' \<notin> set k \<and> LF \<notin> set v" by blast
next
  assume "\<exists>k v t. line = ''['' @ k @ '']: ['' @ v @ '']'' @ t
         \<and> k \<noteq> [] \<and> CHR '']'' \<notin> set k \<and> LF \<notin> set v"
  then obtain k v t where "line = ''['' @ k @ '']: ['' @ v @ '']'' @ t"
    "k \<noteq> []" "CHR '']'' \<notin> set k" "LF \<notin> set v" by blast
  then show "getprop_match line \<noteq> None" using getprop_match_accepts by simp
qed

lemma get_props_loop_ok:
  assumes "\<forall>l\<in>set ls. getprop_match l \<noteq> None"
    and "distinct (map fst (List.map_filter getprop_match ls))"
    and "\<forall>k\<in>set (map fst (List.map_filter getprop_match ls)). r k = None"
  shows "get_props_loop ls r = Inr (r ++ map_of (List.map_filter getprop_match ls))"
  using assms
proof (induction ls arbitrary: r)
  case Nil
  show ?case by (simp add: map_filter_simps)
next
  case (Cons l ls)
  from Cons.prems(1) obtain k v where m: "getprop_match l = Some (k, v)" by auto
  then have mf: "List.map_filter getprop_match (l # ls) = (k, v) # List.map_filter getprop_match ls"
    by (simp add: map_filter_simps)
  from Cons.prems(3)[unfolded mf] have rk: "r k = None" by simp
  from Cons.prems(2)[unfolded mf] have kn: "k \<notin> set (map fst (List.map_filter getprop_match ls))"
    and dist: "distinct (map fst (List.map_filter getprop_match ls))"
    by simp_all
  have fresh: "\<forall>k'\<in>set (map fst (List.map_filter getprop_match ls)). (r(k \<mapsto> v)) k' = None"
    using Cons.prems(3)[unfolded mf] kn by auto
  have all: "\<forall>l\<in>set ls. getprop_match l \<noteq> None" using Cons.prems(1) by simp
  have "get_props_loop ls (r(k \<mapsto> v)) = Inr (r(k \<mapsto> v) ++ map_of (List.map_filter getprop_match ls))"
    using all dist fresh by (rule Cons.IH)
  moreover have nd: "k \<notin> dom (map_of (List.map_filter getprop_match ls))"
    using kn by (simp add: dom_map_of_conv_image_fst)
  have "r(k \<mapsto> v) ++ map_of (List.map_filter getprop_match ls)
      = r ++ map_of ((k, v) # List.map_filter getprop_match ls)"
    by (simp only: map_of.simps fst_conv snd_conv map_add_upd map_add_upd_left[OF nd])
  moreover have "get_props_loop (l # ls) r = get_props_loop ls (r(k \<mapsto> v))"
    by (simp add: m rk)
  ultimately show ?case by (simp only: mf)
qed

lemma get_props_loop_err:
  assumes "\<not> ((\<forall>l\<in>set ls. getprop_match l \<noteq> None)
      \<and> distinct (map fst (List.map_filter getprop_match ls))
      \<and> (\<forall>k\<in>set (map fst (List.map_filter getprop_match ls)). r k = None))"
  shows "\<exists>msg. get_props_loop ls r = Inl (RuntimeError msg)"
  using assms
proof (induction ls arbitrary: r)
  case Nil
  then show ?case by (simp add: map_filter_simps)
next
  case (Cons l ls)
  show ?case
  proof (cases "getprop_match l")
    case None
    then show ?thesis by simp
  next
    case (Some kv)
    obtain k v where kv: "kv = (k, v)" by (cases kv)
    have m: "getprop_match l = Some (k, v)" using Some kv by simp
    have mf: "List.map_filter getprop_match (l # ls) = (k, v) # List.map_filter getprop_match ls"
      using m by (simp add: map_filter_simps)
    show ?thesis
    proof (cases "r k")
      case (Some a)
      then show ?thesis by (simp add: m)
    next
      case None
      have "\<not> ((\<forall>l\<in>set ls. getprop_match l \<noteq> None)
          \<and> distinct (map fst (List.map_filter getprop_match ls))
          \<and> (\<forall>k'\<in>set (map fst (List.map_filter getprop_match ls)). (r(k \<mapsto> v)) k' = None))"
        using Cons.prems[unfolded mf] None m by auto
      then have "\<exists>msg. get_props_loop ls (r(k \<mapsto> v)) = Inl (RuntimeError msg)"
        by (rule Cons.IH)
      then show ?thesis by (simp add: m None)
    qed
  qed
qed

lemma strip_empty_iff: "(strip v = []) = (\<forall>c\<in>set v. isspace c)"
proof
  assume "strip v = []"
  then have "dropWhile isspace (rev (dropWhile isspace v)) = []" by (simp add: strip_def)
  then have a: "\<forall>c\<in>set (dropWhile isspace v). isspace c" by (simp add: dropWhile_eq_Nil_conv)
  have "dropWhile isspace v = []"
  proof (rule ccontr)
    assume n: "dropWhile isspace v \<noteq> []"
    then have "\<not> isspace (hd (dropWhile isspace v))" by (rule hd_dropWhile)
    moreover have "hd (dropWhile isspace v) \<in> set (dropWhile isspace v)" using n by simp
    ultimately show False using a by blast
  qed
  then show "\<forall>c\<in>set v. isspace c" by (simp add: dropWhile_eq_Nil_conv)
next
  assume "\<forall>c\<in>set v. isspace c"
  then have "dropWhile isspace v = []" by (simp only: dropWhile_eq_Nil_conv)
  then show "strip v = []" by (simp only: strip_def rev.simps dropWhile.simps)
qed

text \<open>
  C7, as the code has it. A line is accepted exactly when it begins with \<^verbatim>\<open>[key]: [value]\<close>,
  the key not empty and without \<^verbatim>\<open>]\<close>; the value runs to the last \<^verbatim>\<open>]\<close> of the line, and
  what follows that \<^verbatim>\<open>]\<close> is ignored. When every line of the output is accepted and no key
  occurs twice, \<^verbatim>\<open>get_props\<close> returns the mapping from each key to its value; otherwise (a line
  that does not begin so, or a key that occurs twice) it raises \<^verbatim>\<open>RuntimeError\<close>.
\<close>

theorem get_props_accepts_prefix_form:
  assumes "shell d [''getprop''] h = (Inr (out, err), d', h')"
  shows "((\<forall>l\<in>set (splitlines out). getprop_match l \<noteq> None)
            \<and> distinct (map fst (List.map_filter getprop_match (splitlines out)))
          \<longrightarrow> get_props d h = (Inr (map_of (List.map_filter getprop_match (splitlines out))), d', h'))
       \<and> (\<not> ((\<forall>l\<in>set (splitlines out). getprop_match l \<noteq> None)
               \<and> distinct (map fst (List.map_filter getprop_match (splitlines out))))
          \<longrightarrow> (\<exists>msg. get_props d h = (Inl (RuntimeError msg), d', h')))
       \<and> (getprop_match line \<noteq> None) =
            (\<exists>k v t. line = ''['' @ k @ '']: ['' @ v @ '']'' @ t
                \<and> k \<noteq> [] \<and> CHR '']'' \<notin> set k \<and> LF \<notin> set v)
       \<and> (k \<noteq> [] \<and> CHR '']'' \<notin> set k \<and> LF \<notin> set v \<and> CHR '']'' \<notin> set t
          \<longrightarrow> getprop_match (''['' @ k @ '']: ['' @ v @ '']'' @ t) = Some (k, v))"
proof -
  have g: "get_props d h = (get_props_loop (splitlines out) Map.empty, d', h')"
    by (simp only: get_props_def assms prod.case sum.case)
  have a: "(\<forall>l\<in>set (splitlines out). getprop_match l \<noteq> None)
            \<and> distinct (map fst (List.map_filter getprop_match (splitlines out)))
          \<longrightarrow> get_props d h = (Inr (map_of (List.map_filter getprop_match (splitlines out))), d', h')"
    by (simp add: g get_props_loop_ok)
  have b: "\<not> ((\<forall>l\<in>set (splitlines out). getprop_match l \<noteq> None)
               \<and> distinct (map fst (List.map_filter getprop_match (splitlines out))))
          \<longrightarrow> (\<exists>msg. get_props d h = (Inl (RuntimeError msg), d', h'))"
  proof
    assume "\<not> ((\<forall>l\<in>set (splitlines out). getprop_match l \<noteq> None)
               \<and> distinct (map fst (List.map_filter getprop_match (splitlines out))))"
    then have "\<not> ((\<forall>l\<in>set (splitlines out). getprop_match l \<noteq> None)
      \<and> distinct (map fst (List.map_filter getprop_match (splitlines out)))
      \<and> (\<forall>k\<in>set (map fst (List.map_filter getprop_match (splitlines out))). Map.empty k = None))"
      by simp
    then have "\<exists>msg. get_props_loop (splitlines out) Map.empty = Inl (RuntimeError msg)"
      by (rule get_props_loop_err)
    then show "\<exists>msg. get_props d h = (Inl (RuntimeError msg), d', h')"
      by (simp add: g)
  qed
  have c: "k \<noteq> [] \<and> CHR '']'' \<notin> set k \<and> LF \<notin> set v \<and> CHR '']'' \<notin> set t
          \<longrightarrow> getprop_match (''['' @ k @ '']: ['' @ v @ '']'' @ t) = Some (k, v)"
    using getprop_match_exact by blast
  from a b getprop_match_iff[of line] c show ?thesis by (intro conjI)
qed

theorem get_props_accepts_prefix_form_witness:
  "(shell example_device [''getprop''] (example_host (''shell_v2'' @ [LF]) (0, (''[ro.a]: [1]'' @ [LF] @ ''[ro.b]: [2]''), [])) = (Inr ((''[ro.a]: [1]'' @ [LF] @ ''[ro.b]: [2]''), []), (example_device\<lparr>priv_features := Some [''shell_v2'']\<rparr>), ((example_host (''shell_v2'' @ [LF]) (0, (''[ro.a]: [1]'' @ [LF] @ ''[ro.b]: [2]''), []))\<lparr>calls := [[''adb'', ''-s'', ''abc123'', ''features''], [''adb'', ''-s'', ''abc123'', ''shell''] @ [''getprop'']]\<rparr>))
    \<and> List.map_filter getprop_match (splitlines (''[ro.a]: [1]'' @ [LF] @ ''[ro.b]: [2]'')) = [(''ro.a'', ''1''), (''ro.b'', ''2'')]
    \<and> list_all (\<lambda>l. getprop_match l \<noteq> None) (splitlines (''[ro.a]: [1]'' @ [LF] @ ''[ro.b]: [2]''))
    \<and> get_props example_device (example_host (''shell_v2'' @ [LF]) (0, (''[ro.a]: [1]'' @ [LF] @ ''[ro.b]: [2]''), [])) = (Inr (map_of [(''ro.a'', ''1''), (''ro.b'', ''2'')]), (example_device\<lparr>priv_features := Some [''shell_v2'']\<rparr>), ((example_host (''shell_v2'' @ [LF]) (0, (''[ro.a]: [1]'' @ [LF] @ ''[ro.b]: [2]''), []))\<lparr>calls := [[''adb'', ''-s'', ''abc123'', ''features''], [''adb'', ''-s'', ''abc123'', ''shell''] @ [''getprop'']]\<rparr>)))
   \<and> (shell example_device [''getprop''] (example_host (''shell_v2'' @ [LF]) (0, (''[ro.a]: [1]'' @ [LF] @ ''[ro.a]: [2]'' @ [LF]), [])) = (Inr ((''[ro.a]: [1]'' @ [LF] @ ''[ro.a]: [2]'' @ [LF]), []), (example_device\<lparr>priv_features := Some [''shell_v2'']\<rparr>), ((example_host (''shell_v2'' @ [LF]) (0, (''[ro.a]: [1]'' @ [LF] @ ''[ro.a]: [2]'' @ [LF]), []))\<lparr>calls := [[''adb'', ''-s'', ''abc123'', ''features''], [''adb'', ''-s'', ''abc123'', ''shell''] @ [''getprop'']]\<rparr>))
    \<and> \<not> distinct (map fst (List.map_filter getprop_match (splitlines (''[ro.a]: [1]'' @ [LF] @ ''[ro.a]: [2]'' @ [LF]))))
    \<and> (\<exists>msg. get_props example_device (example_host (''shell_v2'' @ [LF]) (0, (''[ro.a]: [1]'' @ [LF] @ ''[ro.a]: [2]'' @ [LF]), [])) = (Inl (RuntimeError msg), (example_device\<lparr>priv_features := Some [''shell_v2'']\<rparr>), ((example_host (''shell_v2'' @ [LF]) (0, (''[ro.a]: [1]'' @ [LF] @ ''[ro.a]: [2]'' @ [LF]), []))\<lparr>calls := [[''adb'', ''-s'', ''abc123'', ''features''], [''adb'', ''-s'', ''abc123'', ''shell''] @ [''getprop'']]\<rparr>))))
   \<and> (shell example_device [''getprop''] (example_host (''shell_v2'' @ [LF]) (0, (''[ro.a]: [1]'' @ [LF] @ ''ro.b=2'' @ [LF]), [])) = (Inr ((''[ro.a]: [1]'' @ [LF] @ ''ro.b=2'' @ [LF]), []), (example_device\<lparr>priv_features := Some [''shell_v2'']\<rparr>), ((example_host (''shell_v2'' @ [LF]) (0, (''[ro.a]: [1]'' @ [LF] @ ''ro.b=2'' @ [LF]), []))\<lparr>calls := [[''adb'', ''-s'', ''abc123'', ''features''], [''adb'', ''-s'', ''abc123'', ''shell''] @ [''getprop'']]\<rparr>))
    \<and> getprop_match ''ro.b=2'' = None
    \<and> (\<exists>msg. get_props example_device (example_host (''shell_v2'' @ [LF]) (0, (''[ro.a]: [1]'' @ [LF] @ ''ro.b=2'' @ [LF]), [])) = (Inl (RuntimeError msg), (example_device\<lparr>priv_features := Some [''shell_v2'']\<rparr>), ((example_host (''shell_v2'' @ [LF]) (0, (''[ro.a]: [1]'' @ [LF] @ ''ro.b=2'' @ [LF]), []))\<lparr>calls := [[''adb'', ''-s'', ''abc123'', ''features''], [''adb'', ''-s'', ''abc123'', ''shell''] @ [''getprop'']]\<rparr>))))
   \<and> getprop_match (''['' @ ''ro.a'' @ '']: ['' @ ''1'' @ '']'' @ '' # note'') = Some (''ro.a'', ''1'')"
proof -
  have sa: "shell example_device [''getprop''] (example_host (''shell_v2'' @ [LF]) (0, (''[ro.a]: [1]'' @ [LF] @ ''[ro.b]: [2]''), [])) = (Inr ((''[ro.a]: [1]'' @ [LF] @ ''[ro.b]: [2]''), []), (example_device\<lparr>priv_features := Some [''shell_v2'']\<rparr>), ((example_host (''shell_v2'' @ [LF]) (0, (''[ro.a]: [1]'' @ [LF] @ ''[ro.b]: [2]''), []))\<lparr>calls := [[''adb'', ''-s'', ''abc123'', ''features''], [''adb'', ''-s'', ''abc123'', ''shell''] @ [''getprop'']]\<rparr>))"
    by (rule example_shell_structured)
  have ma: "List.map_filter getprop_match (splitlines (''[ro.a]: [1]'' @ [LF] @ ''[ro.b]: [2]'')) = [(''ro.a'', ''1''), (''ro.b'', ''2'')]"
    by code_simp
  have la: "list_all (\<lambda>l. getprop_match l \<noteq> None) (splitlines (''[ro.a]: [1]'' @ [LF] @ ''[ro.b]: [2]''))"
    by code_simp
  have ca: "(\<forall>l\<in>set (splitlines (''[ro.a]: [1]'' @ [LF] @ ''[ro.b]: [2]'')). getprop_match l \<noteq> None)
      \<and> distinct (map fst (List.map_filter getprop_match (splitlines (''[ro.a]: [1]'' @ [LF] @ ''[ro.b]: [2]''))))"
    using la by (simp only: ma list_all_iff) simp
  note ra = get_props_accepts_prefix_form[OF sa, THEN conjunct1, THEN mp, OF ca, unfolded ma]
  have sb: "shell example_device [''getprop''] (example_host (''shell_v2'' @ [LF]) (0, (''[ro.a]: [1]'' @ [LF] @ ''[ro.a]: [2]'' @ [LF]), [])) = (Inr ((''[ro.a]: [1]'' @ [LF] @ ''[ro.a]: [2]'' @ [LF]), []), (example_device\<lparr>priv_features := Some [''shell_v2'']\<rparr>), ((example_host (''shell_v2'' @ [LF]) (0, (''[ro.a]: [1]'' @ [LF] @ ''[ro.a]: [2]'' @ [LF]), []))\<lparr>calls := [[''adb'', ''-s'', ''abc123'', ''features''], [''adb'', ''-s'', ''abc123'', ''shell''] @ [''getprop'']]\<rparr>))"
    by (rule example_shell_structured)
  have db: "\<not> distinct (map fst (List.map_filter getprop_match (splitlines (''[ro.a]: [1]'' @ [LF] @ ''[ro.a]: [2]'' @ [LF]))))"
    by code_simp
  have cb: "\<not> ((\<forall>l\<in>set (splitlines (''[ro.a]: [1]'' @ [LF] @ ''[ro.a]: [2]'' @ [LF])). getprop_match l \<noteq> None)
      \<and> distinct (map fst (List.map_filter getprop_match (splitlines (''[ro.a]: [1]'' @ [LF] @ ''[ro.a]: [2]'' @ [LF])))))"
    using db by blast
  note rb = get_props_accepts_prefix_form[OF sb, THEN conjunct2, THEN conjunct1, THEN mp, OF cb]
  have sc: "shell example_device [''getprop''] (example_host (''shell_v2'' @ [LF]) (0, (''[ro.a]: [1]'' @ [LF] @ ''ro.b=2'' @ [LF]), [])) = (Inr ((''[ro.a]: [1]'' @ [LF] @ ''ro.b=2'' @ [LF]), []), (example_device\<lparr>priv_features := Some [''shell_v2'']\<rparr>), ((example_host (''shell_v2'' @ [LF]) (0, (''[ro.a]: [1]'' @ [LF] @ ''ro.b=2'' @ [LF]), []))\<lparr>calls := [[''adb'', ''-s'', ''abc123'', ''features''], [''adb'', ''-s'', ''abc123'', ''shell''] @ [''getprop'']]\<rparr>))"
    by (rule example_shell_structured)
  have nc: "getprop_match ''ro.b=2'' = None" by code_simp
  have lc: "splitlines (''[ro.a]: [1]'' @ [LF] @ ''ro.b=2'' @ [LF]) = [''[ro.a]: [1]'', ''ro.b=2'']" by code_simp
  have cc: "\<not> ((\<forall>l\<in>set (splitlines (''[ro.a]: [1]'' @ [LF] @ ''ro.b=2'' @ [LF])). getprop_match l \<noteq> None)
      \<and> distinct (map fst (List.map_filter getprop_match (splitlines (''[ro.a]: [1]'' @ [LF] @ ''ro.b=2'' @ [LF])))))"
    using nc by (simp only: lc) simp
  note rc = get_props_accepts_prefix_form[OF sc, THEN conjunct2, THEN conjunct1, THEN mp, OF cc]
  have ce: "''ro.a'' \<noteq> [] \<and> CHR '']'' \<notin> set ''ro.a'' \<and> LF \<notin> set ''1'' \<and> CHR '']'' \<notin> set '' # note''"
    by (simp add: LF_def)
  note re = get_props_accepts_prefix_form[OF sa, THEN conjunct2, THEN conjunct2, THEN conjunct2, THEN mp, OF ce]
  show ?thesis
    by (rule conjI[OF conjI[OF sa conjI[OF ma conjI[OF la ra]]]
          conjI[OF conjI[OF sb conjI[OF db rb]] conjI[OF conjI[OF sc conjI[OF nc rc]] re]]])
qed

text \<open>
  C7 as stated fails: the line \<^verbatim>\<open>[ro.a]: [1]junk\<close> is not of the form \<^verbatim>\<open>[key]: [value]\<close>, and
  \<^verbatim>\<open>get_props\<close> does not raise on it: the pattern has no anchor at the end of the line.
\<close>

theorem get_props_accepts_trailing_text:
  "shell example_device [''getprop''] (example_host (''shell_v2'' @ [LF]) (0, (''[ro.a]: [1]junk'' @ [LF]), [])) = (Inr ((''[ro.a]: [1]junk'' @ [LF]), []), (example_device\<lparr>priv_features := Some [''shell_v2'']\<rparr>), ((example_host (''shell_v2'' @ [LF]) (0, (''[ro.a]: [1]junk'' @ [LF]), []))\<lparr>calls := [[''adb'', ''-s'', ''abc123'', ''features''], [''adb'', ''-s'', ''abc123'', ''shell''] @ [''getprop'']]\<rparr>))
   \<and> splitlines (''[ro.a]: [1]junk'' @ [LF]) = [''[ro.a]: [1]junk'']
   \<and> ''[ro.a]: [1]junk'' \<noteq> ''['' @ ''ro.a'' @ '']: ['' @ ''1'' @ '']''
   \<and> get_props example_device (example_host (''shell_v2'' @ [LF]) (0, (''[ro.a]: [1]junk'' @ [LF]), [])) = (Inr (map_of [(''ro.a'', ''1'')]), (example_device\<lparr>priv_features := Some [''shell_v2'']\<rparr>), ((example_host (''shell_v2'' @ [LF]) (0, (''[ro.a]: [1]junk'' @ [LF]), []))\<lparr>calls := [[''adb'', ''-s'', ''abc123'', ''features''], [''adb'', ''-s'', ''abc123'', ''shell''] @ [''getprop'']]\<rparr>))"
proof -
  have s: "shell example_device [''getprop''] (example_host (''shell_v2'' @ [LF]) (0, (''[ro.a]: [1]junk'' @ [LF]), [])) = (Inr ((''[ro.a]: [1]junk'' @ [LF]), []), (example_device\<lparr>priv_features := Some [''shell_v2'']\<rparr>), ((example_host (''shell_v2'' @ [LF]) (0, (''[ro.a]: [1]junk'' @ [LF]), []))\<lparr>calls := [[''adb'', ''-s'', ''abc123'', ''features''], [''adb'', ''-s'', ''abc123'', ''shell''] @ [''getprop'']]\<rparr>))"
    by (rule example_shell_structured)
  have l: "splitlines (''[ro.a]: [1]junk'' @ [LF]) = [''[ro.a]: [1]junk'']" by code_simp
  have n: "''[ro.a]: [1]junk'' \<noteq> ''['' @ ''ro.a'' @ '']: ['' @ ''1'' @ '']''" by simp
  have m: "getprop_match ''[ro.a]: [1]junk'' = Some (''ro.a'', ''1'')" by code_simp
  have "get_props_loop [''[ro.a]: [1]junk''] Map.empty = Inr (map_of [(''ro.a'', ''1'')])"
    by (simp add: m)
  then have "get_props example_device (example_host (''shell_v2'' @ [LF]) (0, (''[ro.a]: [1]junk'' @ [LF]), [])) = (Inr (map_of [(''ro.a'', ''1'')]), (example_device\<lparr>priv_features := Some [''shell_v2'']\<rparr>), ((example_host (''shell_v2'' @ [LF]) (0, (''[ro.a]: [1]junk'' @ [LF]), []))\<lparr>calls := [[''adb'', ''-s'', ''abc123'', ''features''], [''adb'', ''-s'', ''abc123'', ''shell''] @ [''getprop'']]\<rparr>))"
    by (simp only: get_props_def s prod.case sum.case l)
  with s l n show ?thesis by (intro conjI)
qed

text \<open>
  C8, as the code has it. \<^verbatim>\<open>get_prop\<close> raises whenever the output of the shell is not exactly
  one line: more than one line, or no line at all, as for the empty output. When the one line
  is empty or holds whitespace only it returns \<^verbatim>\<open>None\<close>, and otherwise the line.
\<close>

theorem get_prop_needs_exactly_one_line:
  assumes "shell d [''getprop'', prop_name] h = (Inr (out, err), d', h')"
  shows "(length (splitlines out) \<noteq> 1 \<longrightarrow>
            get_prop d prop_name h =
              (Inl (RuntimeError (''Too many lines in getprop output:'' @ [LF] @ join [LF] (splitlines out))),
               d', h'))
       \<and> (out = [] \<longrightarrow>
            get_prop d prop_name h =
              (Inl (RuntimeError (''Too many lines in getprop output:'' @ [LF])), d', h'))
       \<and> (splitlines out = [v] \<and> (\<forall>c\<in>set v. isspace c) \<longrightarrow>
            get_prop d prop_name h = (Inr None, d', h'))
       \<and> (splitlines out = [v] \<and> (\<exists>c\<in>set v. \<not> isspace c) \<longrightarrow>
            get_prop d prop_name h = (Inr (Some v), d', h'))"
proof -
  have g: "get_prop d prop_name h =
     (let output = splitlines out
      in if length output \<noteq> 1
         then Inl (RuntimeError (''Too many lines in getprop output:'' @ [LF] @ join [LF] output))
         else let val = output ! 0
              in if strip val = [] then Inr None else Inr (Some val),
      d', h')"
    by (simp only: get_prop_def assms prod.case sum.case)
  have a: "length (splitlines out) \<noteq> 1 \<longrightarrow>
            get_prop d prop_name h =
              (Inl (RuntimeError (''Too many lines in getprop output:'' @ [LF] @ join [LF] (splitlines out))),
               d', h')"
    by (simp add: g Let_def)
  have e: "splitlines [] = []" by (simp add: splitlines.simps)
  have b: "out = [] \<longrightarrow>
            get_prop d prop_name h =
              (Inl (RuntimeError (''Too many lines in getprop output:'' @ [LF])), d', h')"
    by (simp add: g Let_def e)
  have c: "splitlines out = [v] \<and> (\<forall>c\<in>set v. isspace c) \<longrightarrow>
            get_prop d prop_name h = (Inr None, d', h')"
    by (simp add: g Let_def strip_empty_iff)
  have d: "splitlines out = [v] \<and> (\<exists>c\<in>set v. \<not> isspace c) \<longrightarrow>
            get_prop d prop_name h = (Inr (Some v), d', h')"
    by (auto simp add: g Let_def strip_empty_iff)
  from a b c d show ?thesis by (intro conjI)
qed

theorem get_prop_needs_exactly_one_line_witness:
  "(shell example_device [''getprop'', ''ro.x''] (example_host (''shell_v2'' @ [LF]) (0, [LF], [])) = (Inr ([LF], []), (example_device\<lparr>priv_features := Some [''shell_v2'']\<rparr>), ((example_host (''shell_v2'' @ [LF]) (0, [LF], []))\<lparr>calls := [[''adb'', ''-s'', ''abc123'', ''features''], [''adb'', ''-s'', ''abc123'', ''shell''] @ [''getprop'', ''ro.x'']]\<rparr>))
    \<and> splitlines [LF] = [[]]
    \<and> get_prop example_device ''ro.x'' (example_host (''shell_v2'' @ [LF]) (0, [LF], [])) = (Inr None, (example_device\<lparr>priv_features := Some [''shell_v2'']\<rparr>), ((example_host (''shell_v2'' @ [LF]) (0, [LF], []))\<lparr>calls := [[''adb'', ''-s'', ''abc123'', ''features''], [''adb'', ''-s'', ''abc123'', ''shell''] @ [''getprop'', ''ro.x'']]\<rparr>)))
   \<and> (shell example_device [''getprop'', ''ro.x''] (example_host (''shell_v2'' @ [LF]) (0, (''running'' @ [LF]), [])) = (Inr ((''running'' @ [LF]), []), (example_device\<lparr>priv_features := Some [''shell_v2'']\<rparr>), ((example_host (''shell_v2'' @ [LF]) (0, (''running'' @ [LF]), []))\<lparr>calls := [[''adb'', ''-s'', ''abc123'', ''features''], [''adb'', ''-s'', ''abc123'', ''shell''] @ [''getprop'', ''ro.x'']]\<rparr>))
    \<and> splitlines (''running'' @ [LF]) = [''running'']
    \<and> get_prop example_device ''ro.x'' (example_host (''shell_v2'' @ [LF]) (0, (''running'' @ [LF]), [])) = (Inr (Some ''running''), (example_device\<lparr>priv_features := Some [''shell_v2'']\<rparr>), ((example_host (''shell_v2'' @ [LF]) (0, (''running'' @ [LF]), []))\<lparr>calls := [[''adb'', ''-s'', ''abc123'', ''features''], [''adb'', ''-s'', ''abc123'', ''shell''] @ [''getprop'', ''ro.x'']]\<rparr>)))
   \<and> (shell example_device [''getprop'', ''ro.x''] (example_host (''shell_v2'' @ [LF]) (0, (''a'' @ [LF] @ ''b'' @ [LF]), [])) = (Inr ((''a'' @ [LF] @ ''b'' @ [LF]), []), (example_device\<lparr>priv_features := Some [''shell_v2'']\<rparr>), ((example_host (''shell_v2'' @ [LF]) (0, (''a'' @ [LF] @ ''b'' @ [LF]), []))\<lparr>calls := [[''adb'', ''-s'', ''abc123'', ''features''], [''adb'', ''-s'', ''abc123'', ''shell''] @ [''getprop'', ''ro.x'']]\<rparr>))
    \<and> length (splitlines (''a'' @ [LF] @ ''b'' @ [LF])) \<noteq> 1
    \<and> get_prop example_device ''ro.x'' (example_host (''shell_v2'' @ [LF]) (0, (''a'' @ [LF] @ ''b'' @ [LF]), []))
        = (Inl (RuntimeError (''Too many lines in getprop output:'' @ [LF] @ ''a'' @ [LF] @ ''b'')), (example_device\<lparr>priv_features := Some [''shell_v2'']\<rparr>), ((example_host (''shell_v2'' @ [LF]) (0, (''a'' @ [LF] @ ''b'' @ [LF]), []))\<lparr>calls := [[''adb'', ''-s'', ''abc123'', ''features''], [''adb'', ''-s'', ''abc123'', ''shell''] @ [''getprop'', ''ro.x'']]\<rparr>)))
   \<and> (shell example_device [''getprop'', ''ro.x''] (example_host (''shell_v2'' @ [LF]) (0, ('' '' @ [TAB] @ [CR, LF]), [])) = (Inr (('' '' @ [TAB] @ [CR, LF]), []), (example_device\<lparr>priv_features := Some [''shell_v2'']\<rparr>), ((example_host (''shell_v2'' @ [LF]) (0, ('' '' @ [TAB] @ [CR, LF]), []))\<lparr>calls := [[''adb'', ''-s'', ''abc123'', ''features''], [''adb'', ''-s'', ''abc123'', ''shell''] @ [''getprop'', ''ro.x'']]\<rparr>))
    \<and> splitlines ('' '' @ [TAB] @ [CR, LF]) = ['' '' @ [TAB]]
    \<and> get_prop example_device ''ro.x'' (example_host (''shell_v2'' @ [LF]) (0, ('' '' @ [TAB] @ [CR, LF]), [])) = (Inr None, (example_device\<lparr>priv_features := Some [''shell_v2'']\<rparr>), ((example_host (''shell_v2'' @ [LF]) (0, ('' '' @ [TAB] @ [CR, LF]), []))\<lparr>calls := [[''adb'', ''-s'', ''abc123'', ''features''], [''adb'', ''-s'', ''abc123'', ''shell''] @ [''getprop'', ''ro.x'']]\<rparr>)))"
proof -
  have s1: "shell example_device [''getprop'', ''ro.x''] (example_host (''shell_v2'' @ [LF]) (0, [LF], [])) = (Inr ([LF], []), (example_device\<lparr>priv_features := Some [''shell_v2'']\<rparr>), ((example_host (''shell_v2'' @ [LF]) (0, [LF], []))\<lparr>calls := [[''adb'', ''-s'', ''abc123'', ''features''], [''adb'', ''-s'', ''abc123'', ''shell''] @ [''getprop'', ''ro.x'']]\<rparr>))"
    by (rule example_shell_structured)
  have l1: "splitlines [LF] = [[]]" by code_simp
  have c1: "splitlines [LF] = [[]] \<and> (\<forall>c\<in>set []. isspace c)" using l1 by simp
  note r1 = get_prop_needs_exactly_one_line[OF s1, THEN conjunct2, THEN conjunct2, THEN conjunct1, THEN mp, OF c1]
  have s2: "shell example_device [''getprop'', ''ro.x''] (example_host (''shell_v2'' @ [LF]) (0, (''running'' @ [LF]), [])) = (Inr ((''running'' @ [LF]), []), (example_device\<lparr>priv_features := Some [''shell_v2'']\<rparr>), ((example_host (''shell_v2'' @ [LF]) (0, (''running'' @ [LF]), []))\<lparr>calls := [[''adb'', ''-s'', ''abc123'', ''features''], [''adb'', ''-s'', ''abc123'', ''shell''] @ [''getprop'', ''ro.x'']]\<rparr>))"
    by (rule example_shell_structured)
  have l2: "splitlines (''running'' @ [LF]) = [''running'']" by code_simp
  have c2: "splitlines (''running'' @ [LF]) = [''running''] \<and> (\<exists>c\<in>set ''running''. \<not> isspace c)"
    using l2 by (simp add: isspace_def)
  note r2 = get_prop_needs_exactly_one_line[OF s2, THEN conjunct2, THEN conjunct2, THEN conjunct2, THEN mp, OF c2]
  have s3: "shell example_device [''getprop'', ''ro.x''] (example_host (''shell_v2'' @ [LF]) (0, (''a'' @ [LF] @ ''b'' @ [LF]), [])) = (Inr ((''a'' @ [LF] @ ''b'' @ [LF]), []), (example_device\<lparr>priv_features := Some [''shell_v2'']\<rparr>), ((example_host (''shell_v2'' @ [LF]) (0, (''a'' @ [LF] @ ''b'' @ [LF]), []))\<lparr>calls := [[''adb'', ''-s'', ''abc123'', ''features''], [''adb'', ''-s'', ''abc123'', ''shell''] @ [''getprop'', ''ro.x'']]\<rparr>))"
    by (rule example_shell_structured)
  have l3: "splitlines (''a'' @ [LF] @ ''b'' @ [LF]) = [''a'', ''b'']" by code_simp
  have c3: "length (splitlines (''a'' @ [LF] @ ''b'' @ [LF])) \<noteq> 1" by (simp only: l3) simp
  have j3: "join [LF] (splitlines (''a'' @ [LF] @ ''b'' @ [LF])) = ''a'' @ [LF] @ ''b''" by (simp only: l3) simp
  note r3 = get_prop_needs_exactly_one_line[OF s3, THEN conjunct1, THEN mp, OF c3, unfolded j3]
  have s4: "shell example_device [''getprop'', ''ro.x''] (example_host (''shell_v2'' @ [LF]) (0, ('' '' @ [TAB] @ [CR, LF]), [])) = (Inr (('' '' @ [TAB] @ [CR, LF]), []), (example_device\<lparr>priv_features := Some [''shell_v2'']\<rparr>), ((example_host (''shell_v2'' @ [LF]) (0, ('' '' @ [TAB] @ [CR, LF]), []))\<lparr>calls := [[''adb'', ''-s'', ''abc123'', ''features''], [''adb'', ''-s'', ''abc123'', ''shell''] @ [''getprop'', ''ro.x'']]\<rparr>))"
    by (rule example_shell_structured)
  have l4: "splitlines ('' '' @ [TAB] @ [CR, LF]) = ['' '' @ [TAB]]" by code_simp
  have c4: "splitlines ('' '' @ [TAB] @ [CR, LF]) = ['' '' @ [TAB]] \<and> (\<forall>c\<in>set ('' '' @ [TAB]). isspace c)"
    using l4 by (simp add: isspace_def TAB_def)
  note r4 = get_prop_needs_exactly_one_line[OF s4, THEN conjunct2, THEN conjunct2, THEN conjunct1, THEN mp, OF c4]
  show ?thesis
    by (rule conjI[OF conjI[OF s1 conjI[OF l1 r1]]
          conjI[OF conjI[OF s2 conjI[OF l2 r2]]
            conjI[OF conjI[OF s3 conjI[OF c3 r3]] conjI[OF s4 conjI[OF l4 r4]]]]])
qed

text \<open>
  C8 as stated fails: on the empty output \<^verbatim>\<open>splitlines\<close> gives no line, the length is not 1,
  and \<^verbatim>\<open>get_prop\<close> raises.
\<close>

theorem get_prop_empty_output_raises:
  "shell example_device [''getprop'', ''ro.x''] (example_host (''shell_v2'' @ [LF]) (0, [], [])) = (Inr ([], []), (example_device\<lparr>priv_features := Some [''shell_v2'']\<rparr>), ((example_host (''shell_v2'' @ [LF]) (0, [], []))\<lparr>calls := [[''adb'', ''-s'', ''abc123'', ''features''], [''adb'', ''-s'', ''abc123'', ''shell''] @ [''getprop'', ''ro.x'']]\<rparr>))
   \<and> get_prop example_device ''ro.x'' (example_host (''shell_v2'' @ [LF]) (0, [], []))
       = (Inl (RuntimeError (''Too many lines in getprop output:'' @ [LF])), (example_device\<lparr>priv_features := Some [''shell_v2'']\<rparr>), ((example_host (''shell_v2'' @ [LF]) (0, [], []))\<lparr>calls := [[''adb'', ''-s'', ''abc123'', ''features''], [''adb'', ''-s'', ''abc123'', ''shell''] @ [''getprop'', ''ro.x'']]\<rparr>))"
proof -
  have s: "shell example_device [''getprop'', ''ro.x''] (example_host (''shell_v2'' @ [LF]) (0, [], [])) = (Inr ([], []), (example_device\<lparr>priv_features := Some [''shell_v2'']\<rparr>), ((example_host (''shell_v2'' @ [LF]) (0, [], []))\<lparr>calls := [[''adb'', ''-s'', ''abc123'', ''features''], [''adb'', ''-s'', ''abc123'', ''shell''] @ [''getprop'', ''ro.x'']]\<rparr>))"
    by (rule example_shell_structured)
  have e: "splitlines [] = []" by (simp add: splitlines.simps)
  have "get_prop example_device ''ro.x'' (example_host (''shell_v2'' @ [LF]) (0, [], []))
       = (Inl (RuntimeError (''Too many lines in getprop output:'' @ [LF])), (example_device\<lparr>priv_features := Some [''shell_v2'']\<rparr>), ((example_host (''shell_v2'' @ [LF]) (0, [], []))\<lparr>calls := [[''adb'', ''-s'', ''abc123'', ''features''], [''adb'', ''-s'', ''abc123'', ''shell''] @ [''getprop'', ''ro.x'']]\<rparr>))"
    by (simp only: get_prop_def s prod.case sum.case e Let_def) simp
  with s show ?thesis by (rule conjI)
qed

end
